theory Spec2Isabelle
  imports Main
begin

section \<open>Data model of the ETH-transfer backend\<close>

text \<open>
  The embedding follows the TypeScript sources of the ETH-transfer backend:
  \<^item> \<open>backend/src/services/BlockchainService.ts\<close> (the data gateway and the evaluator
    \<open>isETHTransferConditionMet\<close>),
  \<^item> \<open>backend/src/processors/TaskMonitorProcessor.ts\<close> (\<open>monitorTaskConditions\<close>,
    \<open>handleETHTransferCondition\<close>),
  \<^item> \<open>backend/src/processors/TaskExecutionProcessor.ts\<close> (\<open>executeTask\<close>,
    \<open>executeETHTransfer\<close>),
  and the cron scheduler \<open>scheduleTask\<close> / \<open>scheduleTasksByType\<close> of the second backend.

  Dates are milliseconds since the epoch. A thrown JavaScript exception is a value of
  type \<open>error\<close>; a function that may throw returns \<open>error + 'a\<close> or, when it also
  changes the state, \<open>error option \<times> world\<close> (\<open>Some e\<close>: it threw \<open>e\<close>).
\<close>

type_synonym time = int

datatype error = Error string

text \<open>
  A JavaScript value as the built-in \<open>BigInt(v)\<close> sees it: \<open>Integral n\<close> is an integer
  number or an integer-literal string denoting \<open>n\<close> (the gateway returns
  \<open>bigint.toString()\<close>, the schema stores thresholds as decimal strings);
  \<open>NotIntegral\<close> is any value on which \<open>BigInt\<close> throws (undefined, a fractional
  number, a non-numeric string).
\<close>

datatype bigint_input = Integral int | NotIntegral

definition BigInt :: "bigint_input \<Rightarrow> error + int" where
  "BigInt v = (case v of Integral n \<Rightarrow> Inr n
                       | NotIntegral \<Rightarrow> Inl (Error ''Cannot convert to a BigInt''))"

definition bindE :: "error + 'a \<Rightarrow> ('a \<Rightarrow> error + 'b) \<Rightarrow> error + 'b" where
  "bindE m f = (case m of Inl e \<Rightarrow> Inl e | Inr x \<Rightarrow> f x)"

text \<open>JavaScript truthiness of an optional string: undefined and the empty string are falsy.\<close>

definition truthy :: "string option \<Rightarrow> bool" where
  "truthy s = (case s of None \<Rightarrow> False | Some v \<Rightarrow> v \<noteq> [])"

text \<open>\<open>conditions.priceCondition\<close>: \<open>{type, priceThreshold, referencePrice}\<close>. A falsy
  \<open>referencePrice\<close> is \<open>None\<close>.\<close>

record price_cond =
  pc_type :: string
  priceThreshold :: bigint_input
  referencePrice :: "bigint_input option"

record balance_cond =
  bc_type :: string
  balanceThreshold :: bigint_input

record gas_cond =
  gc_type :: string
  gasPriceThreshold :: bigint_input

record task_conditions =
  conditionType :: string
  priceCondition :: "price_cond option"
  balanceCondition :: "balance_cond option"
  gasPriceCondition :: "gas_cond option"

datatype task_status = Active | Paused | Completed | Pending | Failed

datatype exec_status = ExecSuccess | ExecFailed | ExecPending

record history_entry =
  timestamp :: time
  action :: string
  h_status :: exec_status
  transactionHash :: "string option"
  h_error :: "string option"
  details :: "(string \<times> string) list"

record task_configuration =
  recipientAddress :: "string option"
  recipient :: "string option"
  amount :: "string option"
  executionType :: "string option"

record task =
  task_id :: string
  userId :: string
  task_type :: string
  sessionKeyId :: "string option"
  configuration :: task_configuration
  conditions :: task_conditions
  network :: string
  status :: task_status
  lastExecutedAt :: "time option"
  nextCheckAt :: "time option"
  lastCheckedAt :: "time option"
  executionHistory :: "history_entry list"

record user =
  user_id :: string
  address :: string
  agentId :: "string option"

record delegation =
  privateKey :: "string option"

text \<open>The execution job \<open>{taskId, taskType, network}\<close> and the options it is queued with.\<close>

record job =
  taskId :: string
  taskType :: string
  jobNetwork :: string

record queue_opts =
  attempts :: nat
  backoffType :: string
  backoffDelay :: nat

text \<open>What \<open>executeETHTransfer\<close> returns: \<open>{success, transactionHash?, error?, details?}\<close>.\<close>

record exec_result =
  success :: bool
  r_transactionHash :: "string option"
  r_error :: "string option"
  r_details :: "(string \<times> string) list option"

text \<open>A request to move funds, as handed to the AI agent or to the executor contract.\<close>

datatype chain_call =
    AgentTransfer string string string string string
  | DirectTransfer string string string string

text \<open>
  The collaborators the processors call and the process configuration. They are read-only
  here: the price, gas and balance gateway of \<open>BlockchainService\<close> (each call returns
  the fetched string or throws), the user collection, \<open>SessionKeyService.getSessionKey\<close>
  (which catches its own errors and returns null), \<open>AIBridgeService.executeETHTransfer\<close>
  (the \<open>transactionHash\<close> of its response, or a thrown error),
  \<open>BlockchainService.executeETHTransfer\<close> (which never throws), the two environment
  variables read by \<open>executeETHTransfer\<close>, and the hex digits \<open>Math.random\<close> yields.
\<close>

record env =
  getETHPrice :: "error + bigint_input"
  getGasPrice :: "error + bigint_input"
  getBalance :: "string \<Rightarrow> error + bigint_input"
  users :: "user list"
  getSessionKey :: "string \<Rightarrow> delegation option"
  agentExecute :: "chain_call \<Rightarrow> error + string option"
  chainExecute :: "chain_call \<Rightarrow> exec_result"
  ETH_TRANSFER_EXECUTOR_ADDRESS :: "string option"
  NODE_ENV :: "string option"
  randomHex :: string

text \<open>
  The mutable state: the task collection, the execution queue, the fund transfers
  requested so far, the clock, and two tapes that script the outside world for one run:
  \<open>ticks\<close> gives the time that passes before each reading of the clock (the clock never
  runs backwards), \<open>faults\<close> says for each write to the store or the queue whether it
  throws. An exhausted tape means no time passes and nothing fails. Reads of the store
  are taken to succeed.
\<close>

record world =
  tasks :: "task list"
  executionQueue :: "(job \<times> queue_opts) list"
  chainCalls :: "chain_call list"
  clock :: time
  ticks :: "nat list"
  faults :: "bool list"

section \<open>The data gateway and the condition evaluators\<close>

text \<open>\<open>BlockchainService.getETHPrice\<close> as the source has it: a fixed mock price,
  3000.00 dollars with 8 decimals.\<close>

definition BlockchainService_getETHPrice :: "error + bigint_input" where
  "BlockchainService_getETHPrice = Inr (Integral 300000000000)"

definition findById :: "string \<Rightarrow> task list \<Rightarrow> task option" where
  "findById i ts = find (\<lambda>t. task_id t = i) ts"

definition User_findById :: "string \<Rightarrow> user list \<Rightarrow> user option" where
  "User_findById i us = find (\<lambda>u. user_id u = i) us"

text \<open>The body of the \<open>try\<close> block of \<open>handleETHTransferCondition\<close>.\<close>

definition handleETHTransferCondition_try :: "env \<Rightarrow> task \<Rightarrow> error + bool" where
  "handleETHTransferCondition_try e task =
    (if \<not> truthy (sessionKeyId task) then Inr False
     else if conditionType (conditions task) = ''price_threshold'' then
       (case priceCondition (conditions task) of
          None \<Rightarrow> Inr False
        | Some pc \<Rightarrow>
            bindE (getETHPrice e) (\<lambda>ethPrice.
              if pc_type pc = ''above'' then
                bindE (BigInt ethPrice) (\<lambda>p.
                bindE (BigInt (priceThreshold pc)) (\<lambda>th. Inr (p \<ge> th)))
              else if pc_type pc = ''below'' then
                bindE (BigInt ethPrice) (\<lambda>p.
                bindE (BigInt (priceThreshold pc)) (\<lambda>th. Inr (p \<le> th)))
              else Inr False))
     else if conditionType (conditions task) = ''balance_threshold'' then
       (case balanceCondition (conditions task) of
          None \<Rightarrow> Inr False
        | Some bc \<Rightarrow>
            (case User_findById (userId task) (users e) of
               None \<Rightarrow> Inr False
             | Some delegator \<Rightarrow>
                 bindE (getBalance e (address delegator)) (\<lambda>balance.
                   if bc_type bc = ''above'' then
                     bindE (BigInt balance) (\<lambda>b.
                     bindE (BigInt (balanceThreshold bc)) (\<lambda>th. Inr (b \<ge> th)))
                   else if bc_type bc = ''below'' then
                     bindE (BigInt balance) (\<lambda>b.
                     bindE (BigInt (balanceThreshold bc)) (\<lambda>th. Inr (b \<le> th)))
                   else Inr False)))
     else if conditionType (conditions task) = ''gas_price'' then
       (case gasPriceCondition (conditions task) of
          None \<Rightarrow> Inr False
        | Some gc \<Rightarrow>
            bindE (getGasPrice e) (\<lambda>gasPrice.
              if gc_type gc = ''below'' then
                bindE (BigInt gasPrice) (\<lambda>g.
                bindE (BigInt (gasPriceThreshold gc)) (\<lambda>th. Inr (g \<le> th)))
              else Inr False))
     else if conditionType (conditions task) = ''time_based'' then Inr False
     else Inr False)"

text \<open>\<open>handleETHTransferCondition\<close>: the \<open>catch\<close> logs the error and returns false.\<close>

definition handleETHTransferCondition :: "env \<Rightarrow> task \<Rightarrow> bool" where
  "handleETHTransferCondition e task =
    (case handleETHTransferCondition_try e task of Inl err \<Rightarrow> False | Inr met \<Rightarrow> met)"

text \<open>The body of the \<open>try\<close> block of \<open>BlockchainService.isETHTransferConditionMet\<close>,
  which takes the task id, the condition type and the conditions object.\<close>

definition isETHTransferConditionMet_try ::
  "env \<Rightarrow> task list \<Rightarrow> string \<Rightarrow> string \<Rightarrow> task_conditions \<Rightarrow> error + bool" where
  "isETHTransferConditionMet_try e store tid ctype conds =
    (if ctype = ''price_threshold'' then
       (case priceCondition conds of
          None \<Rightarrow> Inr False
        | Some pc \<Rightarrow>
            bindE (getETHPrice e) (\<lambda>currentPrice.
            bindE (BigInt currentPrice) (\<lambda>currentPriceBigInt.
            bindE (case referencePrice pc of
                     None \<Rightarrow> Inr currentPriceBigInt
                   | Some r \<Rightarrow> BigInt r) (\<lambda>referencePriceBigInt.
              if pc_type pc = ''above'' then
                bindE (BigInt (priceThreshold pc)) (\<lambda>threshold.
                  Inr (currentPriceBigInt \<ge> threshold))
              else if pc_type pc = ''below'' then
                bindE (BigInt (priceThreshold pc)) (\<lambda>threshold.
                  Inr (currentPriceBigInt \<le> threshold))
              else Inr False))))
     else if ctype = ''balance_threshold'' then
       (case balanceCondition conds of
          None \<Rightarrow> Inr False
        | Some bc \<Rightarrow>
            (case findById tid store of
               None \<Rightarrow> Inr False
             | Some task \<Rightarrow>
                 (case User_findById (userId task) (users e) of
                    None \<Rightarrow> Inr False
                  | Some u \<Rightarrow>
                      bindE (getBalance e (address u)) (\<lambda>balance.
                      bindE (BigInt balance) (\<lambda>balanceBigInt.
                        if bc_type bc = ''above'' then
                          bindE (BigInt (balanceThreshold bc)) (\<lambda>threshold.
                            Inr (balanceBigInt \<ge> threshold))
                        else if bc_type bc = ''below'' then
                          bindE (BigInt (balanceThreshold bc)) (\<lambda>threshold.
                            Inr (balanceBigInt \<le> threshold))
                        else Inr False)))))
     else if ctype = ''gas_price'' then
       (case gasPriceCondition conds of
          None \<Rightarrow> Inr False
        | Some gc \<Rightarrow>
            bindE (getGasPrice e) (\<lambda>gasPrice.
            bindE (BigInt gasPrice) (\<lambda>gasPriceBigInt.
              if gc_type gc = ''below'' then
                bindE (BigInt (gasPriceThreshold gc)) (\<lambda>threshold.
                  Inr (gasPriceBigInt \<le> threshold))
              else Inr False)))
     else if ctype = ''time_based'' then Inr False
     else Inr False)"

definition isETHTransferConditionMet ::
  "env \<Rightarrow> task list \<Rightarrow> string \<Rightarrow> string \<Rightarrow> task_conditions \<Rightarrow> bool" where
  "isETHTransferConditionMet e store tid ctype conds =
    (case isETHTransferConditionMet_try e store tid ctype conds of
       Inl err \<Rightarrow> False | Inr met \<Rightarrow> met)"

text \<open>\<open>isETHTransferConditionMet\<close> converts a truthy \<open>referencePrice\<close> before it
  compares, so the reference price has to be absent or integral for the comparison to
  be reached.\<close>

definition referencePrice_ok :: "price_cond \<Rightarrow> bool" where
  "referencePrice_ok pc =
    (case referencePrice pc of None \<Rightarrow> True | Some r \<Rightarrow> r \<noteq> NotIntegral)"

section \<open>Clock, store and queue\<close>

text \<open>\<open>new Date()\<close> and \<open>Date.now()\<close>: let the next tick pass, then read the clock.\<close>

definition new_Date :: "world \<Rightarrow> time \<times> world" where
  "new_Date w =
    (case ticks w of
       [] \<Rightarrow> (clock w, w)
     | d # ds \<Rightarrow> (clock w + int d, w\<lparr>clock := clock w + int d, ticks := ds\<rparr>))"

definition external_write :: "world \<Rightarrow> bool \<times> world" where
  "external_write w =
    (case faults w of
       [] \<Rightarrow> (False, w)
     | b # bs \<Rightarrow> (b, w\<lparr>faults := bs\<rparr>))"

text \<open>\<open>task.save()\<close>: write the document back under its id, or throw.\<close>

definition replaceById :: "task \<Rightarrow> task list \<Rightarrow> task list" where
  "replaceById t ts = map (\<lambda>u. if task_id u = task_id t then t else u) ts"

definition task_save :: "task \<Rightarrow> world \<Rightarrow> error option \<times> world" where
  "task_save t w =
    (case external_write w of
       (True, w1) \<Rightarrow> (Some (Error ''task.save failed''), w1)
     | (False, w1) \<Rightarrow> (None, w1\<lparr>tasks := replaceById t (tasks w1)\<rparr>))"

text \<open>\<open>executionQueue.add(job, opts)\<close>: publish the job, or throw.\<close>

definition executionQueue_add :: "job \<Rightarrow> queue_opts \<Rightarrow> world \<Rightarrow> error option \<times> world" where
  "executionQueue_add j opts w =
    (case external_write w of
       (True, w1) \<Rightarrow> (Some (Error ''executionQueue.add failed''), w1)
     | (False, w1) \<Rightarrow> (None, w1\<lparr>executionQueue := executionQueue w1 @ [(j, opts)]\<rparr>))"

section \<open>The scheduler: monitorTaskConditions\<close>

text \<open>The query of \<open>monitorTaskConditions\<close>:
  \<open>{type: 'eth-transfer', status: 'active', network: 'sepolia', nextCheckAt: {$lte: now}}\<close>.
  A document without \<open>nextCheckAt\<close> does not match \<open>$lte\<close>.\<close>

definition dueQuery :: "time \<Rightarrow> task \<Rightarrow> bool" where
  "dueQuery now t =
    (task_type t = ''eth-transfer'' \<and> status t = Active \<and> network t = ''sepolia'' \<and>
     (case nextCheckAt t of None \<Rightarrow> False | Some n \<Rightarrow> n \<le> now))"

definition Task_find :: "(task \<Rightarrow> bool) \<Rightarrow> world \<Rightarrow> task list" where
  "Task_find q w = filter q (tasks w)"

text \<open>The job the monitor publishes for a task whose condition is met, and its options:
  three attempts, exponential backoff from 5000 ms.\<close>

definition executionJob :: "task \<Rightarrow> job" where
  "executionJob t =
    \<lparr>taskId = task_id t, taskType = ''eth-transfer'', jobNetwork = ''sepolia''\<rparr>"

definition executionJobOpts :: queue_opts where
  "executionJobOpts = \<lparr>attempts = 3, backoffType = ''exponential'', backoffDelay = 5000\<rparr>"

text \<open>The \<open>try\<close> block of the loop body. It returns the error thrown, if any, the
  in-memory document as mutated so far, and the state.\<close>

definition monitorTask_try :: "env \<Rightarrow> task \<Rightarrow> world \<Rightarrow> error option \<times> task \<times> world" where
  "monitorTask_try e t w =
    (if handleETHTransferCondition e t then
       (case executionQueue_add (executionJob t) executionJobOpts w of
          (Some err, w1) \<Rightarrow> (Some err, t, w1)
        | (None, w1) \<Rightarrow>
            (case new_Date w1 of (d, w2) \<Rightarrow>
               let t1 = t\<lparr>lastCheckedAt := Some d\<rparr> in
               (case task_save t1 w2 of (r, w3) \<Rightarrow> (r, t1, w3))))
     else
       (case new_Date w of (d1, w1) \<Rightarrow>
          let t1 = t\<lparr>lastCheckedAt := Some d1\<rparr> in
          (case new_Date w1 of (d2, w2) \<Rightarrow>
             let t2 = t1\<lparr>nextCheckAt := Some (d2 + 5 * 60 * 1000)\<rparr> in
             (case task_save t2 w2 of (r, w3) \<Rightarrow> (r, t2, w3)))))"

text \<open>The \<open>catch\<close> block of the loop body; an error of its own \<open>save\<close> escapes the loop.\<close>

definition monitorTask_catch :: "task \<Rightarrow> world \<Rightarrow> error option \<times> world" where
  "monitorTask_catch t w =
    (case new_Date w of (d1, w1) \<Rightarrow>
       let t1 = t\<lparr>lastCheckedAt := Some d1\<rparr> in
       (case new_Date w1 of (d2, w2) \<Rightarrow>
          let t2 = t1\<lparr>nextCheckAt := Some (d2 + 15 * 60 * 1000)\<rparr> in
          task_save t2 w2))"

definition monitorTask :: "env \<Rightarrow> task \<Rightarrow> world \<Rightarrow> error option \<times> world" where
  "monitorTask e t w =
    (case monitorTask_try e t w of
       (None, t1, w1) \<Rightarrow> (None, w1)
     | (Some err, t1, w1) \<Rightarrow> monitorTask_catch t1 w1)"

fun monitorLoop :: "env \<Rightarrow> task list \<Rightarrow> world \<Rightarrow> error option \<times> world" where
  "monitorLoop e [] w = (None, w)"
| "monitorLoop e (t # ts) w =
    (case monitorTask e t w of
       (Some err, w1) \<Rightarrow> (Some err, w1)
     | (None, w1) \<Rightarrow> monitorLoop e ts w1)"

text \<open>\<open>monitorTaskConditions(job)\<close>: the job's own \<open>taskType\<close> and \<open>network\<close> are read
  and then ignored.\<close>

definition monitorTaskConditions :: "env \<Rightarrow> job \<Rightarrow> world \<Rightarrow> error option \<times> world" where
  "monitorTaskConditions e j w =
    (case new_Date w of (now, w0) \<Rightarrow> monitorLoop e (Task_find (dueQuery now) w0) w0)"

section \<open>The worker: executeTask\<close>

definition failed_result :: "string \<Rightarrow> exec_result" where
  "failed_result msg =
    \<lparr>success = False, r_transactionHash = None, r_error = Some msg, r_details = None\<rparr>"

definition transfer_details :: "string \<Rightarrow> string \<Rightarrow> (string \<times> string) list" where
  "transfer_details r a = [(''recipientAddress'', r), (''amount'', a), (''network'', ''sepolia'')]"

text \<open>The direct-execution tail of \<open>executeETHTransfer\<close>, from the lookup of the executor
  address on. In development mode the returned result is a simulated success whatever
  the chain call returned.\<close>

definition executeETHTransfer_direct ::
  "env \<Rightarrow> string \<Rightarrow> string \<Rightarrow> string \<Rightarrow> world \<Rightarrow> exec_result \<times> world" where
  "executeETHTransfer_direct e key r a w =
    (case ETH_TRANSFER_EXECUTOR_ADDRESS e of
       None \<Rightarrow> (failed_result ''ETH transfer executor address not configured'', w)
     | Some executorAddress \<Rightarrow>
         if executorAddress = [] then
           (failed_result ''ETH transfer executor address not configured'', w)
         else
           let call = DirectTransfer key executorAddress r a;
               result = chainExecute e call;
               w1 = w\<lparr>chainCalls := chainCalls w @ [call]\<rparr>
           in if NODE_ENV e = Some ''development'' then
                (\<lparr>success = True, r_transactionHash = Some (''0x'' @ randomHex e),
                  r_error = None, r_details = Some (transfer_details r a)\<rparr>, w1)
              else (result, w1))"

text \<open>\<open>executeETHTransfer(task, user)\<close>. It is called after \<open>executeTask\<close> has rejected a
  task without session key, so the key read here is a non-empty string.\<close>

definition executeETHTransfer :: "env \<Rightarrow> task \<Rightarrow> user \<Rightarrow> world \<Rightarrow> exec_result \<times> world" where
  "executeETHTransfer e task u w =
    (let key = (case sessionKeyId task of None \<Rightarrow> [] | Some k \<Rightarrow> k) in
     case getSessionKey e key of
       None \<Rightarrow> (failed_result ''Session key not found or missing private key'', w)
     | Some sessionKey \<Rightarrow>
         (case privateKey sessionKey of
            None \<Rightarrow> (failed_result ''Session key not found or missing private key'', w)
          | Some pk \<Rightarrow>
              if pk = [] then
                (failed_result ''Session key not found or missing private key'', w)
              else
                let cfg = configuration task;
                    recipientAddress' =
                      (if truthy (recipientAddress cfg) then recipientAddress cfg
                       else recipient cfg)
                in (case (recipientAddress', amount cfg) of
                      (Some r, Some a) \<Rightarrow>
                        if r = [] \<or> a = [] then
                          (failed_result
                             ''Missing required parameters: recipientAddress or amount'', w)
                        else
                          (case agentId u of
                             None \<Rightarrow> executeETHTransfer_direct e key r a w
                           | Some agent \<Rightarrow>
                               if agent = [] then executeETHTransfer_direct e key r a w
                               else
                                 let call = AgentTransfer agent key pk r a;
                                     w1 = w\<lparr>chainCalls := chainCalls w @ [call]\<rparr>
                                 in (case agentExecute e call of
                                       Inr h \<Rightarrow>
                                         (\<lparr>success = True, r_transactionHash = h,
                                           r_error = None,
                                           r_details = Some (transfer_details r a)\<rparr>, w1)
                                     | Inl err \<Rightarrow> executeETHTransfer_direct e key r a w1))
                    | _ \<Rightarrow>
                        (failed_result
                           ''Missing required parameters: recipientAddress or amount'', w))))"

text \<open>The history entry \<open>executeTask\<close> builds from the execution result.\<close>

definition historyEntry :: "time \<Rightarrow> string \<Rightarrow> exec_result \<Rightarrow> history_entry" where
  "historyEntry now ttype r =
    \<lparr>timestamp = now,
     action = ''Execute '' @ ttype,
     h_status = (if success r then ExecSuccess else ExecFailed),
     transactionHash = r_transactionHash r,
     h_error = r_error r,
     details = (case r_details r of None \<Rightarrow> [] | Some d \<Rightarrow> d)\<rparr>"

text \<open>\<open>executeTask(job)\<close>. The \<open>catch\<close> logs and rethrows, so every error reaches the
  queue: \<open>Some e\<close> is a rejected job.\<close>

definition executeTask :: "env \<Rightarrow> job \<Rightarrow> world \<Rightarrow> error option \<times> world" where
  "executeTask e j w =
    (case findById (taskId j) (tasks w) of
       None \<Rightarrow> (Some (Error (''Task '' @ taskId j @ '' not found'')), w)
     | Some task \<Rightarrow>
         if status task \<noteq> Active then (None, w)
         else
           (case User_findById (userId task) (users e) of
              None \<Rightarrow> (Some (Error (''User for task '' @ taskId j @ '' not found'')), w)
            | Some u \<Rightarrow>
                if \<not> truthy (sessionKeyId task) then
                  (Some (Error (''Task '' @ taskId j @ '' has no session key'')), w)
                else if taskType j = ''eth-transfer'' then
                  (case executeETHTransfer e task u w of (executionResult, w1) \<Rightarrow>
                   case new_Date w1 of (d1, w2) \<Rightarrow>
                   case new_Date w2 of (d2, w3) \<Rightarrow>
                     let task1 = task\<lparr>executionHistory :=
                                        executionHistory task @
                                          [historyEntry d1 (taskType j) executionResult],
                                      lastExecutedAt := Some d2\<rparr>;
                         task2 = (if executionType (configuration task1) = Some ''one-time''
                                     \<and> success executionResult
                                  then task1\<lparr>status := Completed\<rparr> else task1)
                     in task_save task2 w3)
                else (Some (Error (''Unsupported task type: '' @ taskType j)), w)))"

text \<open>The document \<open>executeTask\<close> saves after an execution, \<open>d1\<close> and \<open>d2\<close> being its
  two readings of the clock.\<close>

definition executedTask :: "task \<Rightarrow> string \<Rightarrow> exec_result \<Rightarrow> time \<Rightarrow> time \<Rightarrow> task" where
  "executedTask t ty res d1 d2 =
     t\<lparr>executionHistory := executionHistory t @ [historyEntry d1 ty res],
       lastExecutedAt := Some d2,
       status := (if executionType (configuration t) = Some ''one-time'' \<and> success res
                  then Completed else status t)\<rparr>"

section \<open>The task routes\<close>

text \<open>\<open>String.prototype.toLowerCase\<close> on the ASCII letters; wallet addresses are
  hexadecimal strings.\<close>

definition toLowerCase :: "string \<Rightarrow> string" where
  "toLowerCase s =
    map (\<lambda>c. case map_of (zip ''ABCDEFGHIJKLMNOPQRSTUVWXYZ''
                                ''abcdefghijklmnopqrstuvwxyz'') c of
                None \<Rightarrow> c
              | Some l \<Rightarrow> l) s"

text \<open>\<open>User.findOne({address: a})\<close>.\<close>

definition User_findOne :: "string \<Rightarrow> user list \<Rightarrow> user option" where
  "User_findOne a us = find (\<lambda>u. address u = a) us"

text \<open>\<open>findOneAndUpdate\<close> and \<open>findOneAndDelete\<close> touch the first matching document.\<close>

fun updateFirst :: "('a \<Rightarrow> bool) \<Rightarrow> ('a \<Rightarrow> 'a) \<Rightarrow> 'a list \<Rightarrow> 'a list" where
  "updateFirst p f [] = []"
| "updateFirst p f (x # xs) = (if p x then f x # xs else x # updateFirst p f xs)"

fun removeFirst :: "('a \<Rightarrow> bool) \<Rightarrow> 'a list \<Rightarrow> 'a list" where
  "removeFirst p [] = []"
| "removeFirst p (x # xs) = (if p x then xs else x # removeFirst p xs)"

text \<open>The request of \<open>PATCH /:taskId/status\<close>: the task id of the path, and \<open>status\<close>
  and \<open>userAddress\<close> of the body (\<open>None\<close>: no address was sent).\<close>

record status_request =
  req_taskId :: string
  req_status :: string
  req_userAddress :: "string option"

text \<open>\<open>updateTaskStatusHandler\<close> (pause/activate), with the HTTP status it answers. It
  accepts the new status \<open>active\<close> or \<open>paused\<close> and writes it to the task of that id
  owned by the user; the status the task has is not looked at. A missing address makes
  \<open>toLowerCase\<close> throw, which like a failing write is answered with 500.\<close>

definition updateTaskStatusHandler :: "env \<Rightarrow> status_request \<Rightarrow> world \<Rightarrow> nat \<times> world" where
  "updateTaskStatusHandler e r w =
    (if req_status r \<noteq> ''active'' \<and> req_status r \<noteq> ''paused'' then (400, w)
     else
       (case req_userAddress r of
          None \<Rightarrow> (500, w)
        | Some a \<Rightarrow>
            (case User_findOne (toLowerCase a) (users e) of
               None \<Rightarrow> (404, w)
             | Some u \<Rightarrow>
                 (case external_write w of
                    (True, w1) \<Rightarrow> (500, w1)
                  | (False, w1) \<Rightarrow>
                      (case find (\<lambda>t. task_id t = req_taskId r \<and> userId t = user_id u)
                              (tasks w1) of
                         None \<Rightarrow> (404, w1)
                       | Some t \<Rightarrow>
                           (200, w1\<lparr>tasks :=
                              updateFirst
                                (\<lambda>t. task_id t = req_taskId r \<and> userId t = user_id u)
                                (\<lambda>t. t\<lparr>status := (if req_status r = ''active'' then Active
                                                     else Paused)\<rparr>)
                                (tasks w1)\<rparr>))))))"

text \<open>The request of \<open>DELETE /:taskId\<close> and \<open>deleteTaskHandler\<close>.\<close>

record delete_request =
  del_taskId :: string
  del_userAddress :: "string option"

definition deleteTaskHandler :: "env \<Rightarrow> delete_request \<Rightarrow> world \<Rightarrow> nat \<times> world" where
  "deleteTaskHandler e r w =
    (case del_userAddress r of
       None \<Rightarrow> (500, w)
     | Some a \<Rightarrow>
         (case User_findOne (toLowerCase a) (users e) of
            None \<Rightarrow> (404, w)
          | Some u \<Rightarrow>
              (case external_write w of
                 (True, w1) \<Rightarrow> (500, w1)
               | (False, w1) \<Rightarrow>
                   (case find (\<lambda>t. task_id t = del_taskId r \<and> userId t = user_id u)
                           (tasks w1) of
                      None \<Rightarrow> (404, w1)
                    | Some t \<Rightarrow>
                        (200, w1\<lparr>tasks :=
                           removeFirst
                             (\<lambda>t. task_id t = del_taskId r \<and> userId t = user_id u)
                             (tasks w1)\<rparr>)))))"

section \<open>Runs of the scheduler, the worker and the routes\<close>

text \<open>One event is a poll cycle of the monitor, the processing of one execution job, or
  a request to the status or the delete route; each comes with the answers the
  collaborators give during it. A run processes the events one after the other.\<close>

datatype event =
    Poll env job
  | Execute env job
  | UpdateStatus env status_request
  | Delete env delete_request

fun step :: "event \<Rightarrow> world \<Rightarrow> world" where
  "step (Poll e j) w = snd (monitorTaskConditions e j w)"
| "step (Execute e j) w = snd (executeTask e j w)"
| "step (UpdateStatus e r) w = snd (updateTaskStatusHandler e r w)"
| "step (Delete e r) w = snd (deleteTaskHandler e r w)"

fun run :: "event list \<Rightarrow> world \<Rightarrow> world" where
  "run [] w = w"
| "run (ev # evs) w = run evs (step ev w)"



text \<open>The number of history entries of a task with status \<open>success\<close>.\<close>

definition successes :: "task \<Rightarrow> nat" where
  "successes t = length (filter (\<lambda>h. h_status h = ExecSuccess) (executionHistory t))"

definition one_time :: "task \<Rightarrow> bool" where
  "one_time t = (executionType (configuration t) = Some ''one-time'')"



section \<open>The cron scheduler of the second backend: scheduleTask\<close>

record sched_task =
  st_taskId :: string
  st_walletAddress :: string
  st_userId :: string
  st_rules :: "string list"
  st_metadata :: string
  st_type :: string
  st_status :: task_status

text \<open>The payload \<open>scheduleTask\<close> enqueues:
  \<open>{taskId, walletAddress, userId, rules, metadata, type}\<close>.\<close>

record sched_payload =
  p_taskId :: string
  p_walletAddress :: string
  p_userId :: string
  p_rules :: "string list"
  p_metadata :: string
  p_type :: string

text \<open>The queues of \<open>taskQueueMap\<close>, one per task type, and the fault tape of the queue
  backend.\<close>

record sched_world =
  queues :: "string \<Rightarrow> sched_payload list"
  queueFaults :: "bool list"

definition taskQueueMap_keys :: "string list" where
  "taskQueueMap_keys =
    [''dao_vote'', ''buy_token'', ''token_swap'', ''staking'', ''liquidity_provision'',
     ''nft_purchase'', ''yield_optimization'', ''claim_rewards'']"

text \<open>The keys every JavaScript object inherits: \<open>taskQueueMap[k]\<close> is truthy for
  them, but it is no queue.\<close>

definition Object_prototype_keys :: "string list" where
  "Object_prototype_keys =
    [''constructor'', ''__defineGetter__'', ''__defineSetter__'', ''hasOwnProperty'',
     ''__lookupGetter__'', ''__lookupSetter__'', ''isPrototypeOf'',
     ''propertyIsEnumerable'', ''toString'', ''valueOf'', ''__proto__'',
     ''toLocaleString'']"

text \<open>\<open>enqueueTask(taskType, data)\<close>: throws when no queue serves the type, when the
  type is an inherited key (\<open>queue.add\<close> is then not a function), or when the queue
  rejects the job.\<close>

definition enqueueTask :: "string \<Rightarrow> sched_payload \<Rightarrow> sched_world \<Rightarrow> error option \<times> sched_world" where
  "enqueueTask ty d sw =
    (if ty \<in> set Object_prototype_keys then
       (Some (Error ''queue.add is not a function''), sw)
     else if ty \<notin> set taskQueueMap_keys then
       (Some (Error (''No queue found for task type: '' @ ty)), sw)
     else
       (case queueFaults sw of
          [] \<Rightarrow> (None, sw\<lparr>queues := (queues sw)(ty := queues sw ty @ [d])\<rparr>)
        | b # bs \<Rightarrow>
            if b then (Some (Error ''queue.add failed''), sw\<lparr>queueFaults := bs\<rparr>)
            else (None, sw\<lparr>queues := (queues sw)(ty := queues sw ty @ [d]),
                            queueFaults := bs\<rparr>)))"

text \<open>\<open>scheduleTask(task)\<close> returns undefined (\<open>None\<close>) for a task that is not active,
  true when the task was enqueued and false when enqueueing threw.\<close>

definition scheduleTask :: "sched_task \<Rightarrow> sched_world \<Rightarrow> bool option \<times> sched_world" where
  "scheduleTask t sw =
    (if st_status t \<noteq> Active then (None, sw)
     else
       (case enqueueTask (st_type t)
               \<lparr>p_taskId = st_taskId t, p_walletAddress = st_walletAddress t,
                p_userId = st_userId t, p_rules = st_rules t,
                p_metadata = st_metadata t, p_type = st_type t\<rparr> sw of
          (None, sw1) \<Rightarrow> (Some True, sw1)
        | (Some err, sw1) \<Rightarrow> (Some False, sw1)))"

fun scheduleAll :: "sched_task list \<Rightarrow> sched_world \<Rightarrow> sched_world" where
  "scheduleAll [] sw = sw"
| "scheduleAll (t # ts) sw = scheduleAll ts (snd (scheduleTask t sw))"

text \<open>\<open>scheduleTasksByType(taskType)\<close>: the query is \<open>{type: taskType, status: ACTIVE}\<close>.\<close>

definition scheduleTasksByType ::
  "string \<Rightarrow> sched_task list \<Rightarrow> sched_world \<Rightarrow> bool \<times> sched_world" where
  "scheduleTasksByType ty store sw =
    (True, scheduleAll (filter (\<lambda>t. st_type t = ty \<and> st_status t = Active) store) sw)"

section \<open>The token purchase worker of the second backend\<close>

text \<open>
  \<open>processTokenPurchaseTask\<close> of \<open>task.processor.ts\<close>, the processor behind the
  \<open>buy_token\<close> queue. Prices and amounts are floating-point numbers there; the model
  keeps them in a type parameter \<open>'n\<close> and takes every computation on them
  (\<open>parseFloat\<close>, the rendering in a template string, \<open>getTokenPrice\<close>,
  \<open>checkPriceCondition\<close>, \<open>simulateTokenPurchase\<close>) from the environment.
\<close>

datatype execution_status = PENDING | PROCESSING | SUCCESSFUL | FAILED | NO_ACTION

record execution_record =
  er_timestamp :: time
  er_status :: execution_status
  er_details :: string
  er_txHash :: "string option"
  er_gasUsed :: "int option"
  er_errorMessage :: "string option"

record rule_params =
  rp_tokenAddress :: "string option"
  rp_amount :: "string option"
  rp_maxPrice :: "string option"
  rp_chainId :: "int option"
  rp_tokenSymbol :: "string option"

record task_rule =
  rule_type :: string
  rule_condition :: string
  rule_parameters :: rule_params

text \<open>The task document as the processor reads and writes it.\<close>

record purchase_task =
  pt_taskId :: string
  pt_userId :: string
  pt_walletAddress :: string
  pt_type :: string
  pt_status :: task_status
  pt_rules :: "task_rule list"
  pt_lastExecuted :: "time option"
  pt_executionHistory :: "execution_record list"

record activity =
  act_userId :: string
  act_walletAddress :: string
  act_type :: string
  act_taskType :: string
  act_taskId :: string
  act_status :: string
  act_details :: string
  act_metadata :: "(string \<times> string option) list"
  act_timestamp :: time
  act_txHash :: "string option"
  act_chainId :: "int option"

record 'n token_price =
  tp_price :: 'n
  tp_previousPrice :: 'n

record 'n purchase =
  pu_txHash :: string
  pu_gasUsed :: int
  pu_amount :: 'n
  pu_pricePerToken :: 'n
  pu_totalCost :: 'n

record 'n purchase_env =
  parseFloat :: "string option \<Rightarrow> 'n"
  showNumber :: "'n \<Rightarrow> string"
  getTokenPrice :: "string option \<Rightarrow> int \<Rightarrow> error + 'n token_price"
  checkPriceCondition :: "'n \<Rightarrow> string \<Rightarrow> 'n \<Rightarrow> 'n \<Rightarrow> bool \<times> string"
  simulateTokenPurchase :: "string \<Rightarrow> string option \<Rightarrow> 'n \<Rightarrow> 'n \<Rightarrow> int \<Rightarrow> 'n purchase"

text \<open>What the processor resolves with: \<open>{status, message, details?}\<close>.\<close>

record 'n process_result =
  res_status :: execution_status
  res_message :: string
  res_details :: "'n purchase option"

text \<open>The state of the second backend: the task collection, the activity log, the
  purchases simulated so far (wallet and token), the clock and the two tapes.\<close>

record purchase_world =
  pw_tasks :: "purchase_task list"
  pw_activities :: "activity list"
  pw_purchases :: "(string \<times> string option) list"
  pw_clock :: time
  pw_ticks :: "nat list"
  pw_faults :: "bool list"

definition pw_new_Date :: "purchase_world \<Rightarrow> time \<times> purchase_world" where
  "pw_new_Date w =
    (case pw_ticks w of
       [] \<Rightarrow> (pw_clock w, w)
     | d # ds \<Rightarrow> (pw_clock w + int d, w\<lparr>pw_clock := pw_clock w + int d, pw_ticks := ds\<rparr>))"

definition pw_external_write :: "purchase_world \<Rightarrow> bool \<times> purchase_world" where
  "pw_external_write w =
    (case pw_faults w of
       [] \<Rightarrow> (False, w)
     | b # bs \<Rightarrow> (b, w\<lparr>pw_faults := bs\<rparr>))"

definition Task_findOne :: "string \<Rightarrow> purchase_task list \<Rightarrow> purchase_task option" where
  "Task_findOne i ts = find (\<lambda>t. pt_taskId t = i) ts"

definition purchase_task_save :: "purchase_task \<Rightarrow> purchase_world \<Rightarrow> error option \<times> purchase_world" where
  "purchase_task_save t w =
    (case pw_external_write w of
       (True, w1) \<Rightarrow> (Some (Error ''task.save failed''), w1)
     | (False, w1) \<Rightarrow>
         (None, w1\<lparr>pw_tasks := map (\<lambda>u. if pt_taskId u = pt_taskId t then t else u)
                                   (pw_tasks w1)\<rparr>))"

text \<open>\<open>createActivity(params)\<close> never throws: when the write fails it builds a
  fallback record that is not stored. It reads the clock for the activity id and for
  the timestamp, and again for the fallback.\<close>

definition createActivity :: "activity \<Rightarrow> purchase_world \<Rightarrow> purchase_world" where
  "createActivity params w =
    (case pw_new_Date w of (d1, w1) \<Rightarrow>
     case pw_new_Date w1 of (d2, w2) \<Rightarrow>
     case pw_external_write w2 of
       (False, w3) \<Rightarrow>
         w3\<lparr>pw_activities := pw_activities w3 @
               [params\<lparr>act_walletAddress := toLowerCase (act_walletAddress params),
                       act_timestamp := d2\<rparr>]\<rparr>
     | (True, w3) \<Rightarrow>
         (case pw_new_Date w3 of (d3, w4) \<Rightarrow>
          case pw_new_Date w4 of (d4, w5) \<Rightarrow> w5))"

text \<open>\<open>s.includes(sub)\<close>.\<close>

fun includes_str :: "string \<Rightarrow> string \<Rightarrow> bool" where
  "includes_str [] sub = (sub = [])"
| "includes_str (c # cs) sub = (take (length sub) (c # cs) = sub \<or> includes_str cs sub)"

text \<open>The \<open>try\<close> block of \<open>processTokenPurchaseTask\<close>. It returns what the block returned
  or threw, the variable \<open>task\<close> as assigned and mutated so far, and the state.\<close>

definition processTokenPurchaseTask_try ::
  "'n purchase_env \<Rightarrow> sched_payload \<Rightarrow> purchase_world \<Rightarrow>
     (error + 'n process_result) \<times> purchase_task option \<times> purchase_world" where
  "processTokenPurchaseTask_try pe taskData w =
    (let taskId = p_taskId taskData in
     case Task_findOne taskId (pw_tasks w) of
       None \<Rightarrow> (Inl (Error (''Task '' @ taskId @ '' not found'')), None, w)
     | Some task \<Rightarrow>
         if pt_status task \<noteq> Active then
           (Inr \<lparr>res_status = NO_ACTION, res_message = ''Task is not active'',
                 res_details = None\<rparr>, Some task, w)
         else
           (case find (\<lambda>rule. rule_type rule = ''token_price_rule'') (pt_rules task) of
              None \<Rightarrow>
                (Inl (Error (''No token price rule found for task '' @ taskId)), Some task, w)
            | Some priceRule \<Rightarrow>
                let tokenAddress = rp_tokenAddress (rule_parameters priceRule);
                    amount = parseFloat pe (rp_amount (rule_parameters priceRule));
                    priceCondition = rule_condition priceRule;
                    maxPrice = parseFloat pe
                      (if truthy (rp_maxPrice (rule_parameters priceRule))
                       then rp_maxPrice (rule_parameters priceRule) else Some ''0'');
                    chainId = (case rp_chainId (rule_parameters priceRule) of
                                 None \<Rightarrow> 1 | Some c \<Rightarrow> if c = 0 then 1 else c);
                    tokenSymbol = (if truthy (rp_tokenSymbol (rule_parameters priceRule))
                                   then the (rp_tokenSymbol (rule_parameters priceRule))
                                   else ''Unknown'')
                in
                (case getTokenPrice pe tokenAddress chainId of
                   Inl err \<Rightarrow> (Inl err, Some task, w)
                 | Inr priceData \<Rightarrow>
                     (case checkPriceCondition pe (tp_price priceData) priceCondition maxPrice
                             (tp_previousPrice priceData) of
                        (met, reason) \<Rightarrow>
                          if \<not> met then
                            (case pw_new_Date w of (d, w1) \<Rightarrow>
                               let task1 = task\<lparr>pt_lastExecuted := Some d\<rparr> in
                               (case purchase_task_save task1 w1 of
                                  (Some err, w2) \<Rightarrow> (Inl err, Some task1, w2)
                                | (None, w2) \<Rightarrow>
                                    (Inr \<lparr>res_status = NO_ACTION,
                                          res_message = ''Price condition not met. '' @ reason,
                                          res_details = None\<rparr>, Some task1, w2)))
                          else
                            (let purchaseResult =
                                   simulateTokenPurchase pe (pt_walletAddress task)
                                     tokenAddress amount (tp_price priceData) chainId;
                                 w1 = w\<lparr>pw_purchases := pw_purchases w @
                                          [(pt_walletAddress task, tokenAddress)]\<rparr>;
                                 details = ''Purchased '' @ showNumber pe amount @ '' '' @
                                        tokenSymbol @ '' at price $'' @
                                        showNumber pe (tp_price priceData)
                             in
                             case pw_new_Date w1 of (d1, w2) \<Rightarrow>
                               let task1 = task\<lparr>pt_executionHistory :=
                                     pt_executionHistory task @
                                       [\<lparr>er_timestamp = d1, er_status = SUCCESSFUL,
                                         er_details = details,
                                         er_txHash = Some (pu_txHash purchaseResult),
                                         er_gasUsed = Some (pu_gasUsed purchaseResult),
                                         er_errorMessage = None\<rparr>]\<rparr>;
                                   w3 = createActivity
                                     \<lparr>act_userId = pt_userId task1,
                                      act_walletAddress = pt_walletAddress task1,
                                      act_type = ''task_executed'',
                                      act_taskType = pt_type task1,
                                      act_taskId = pt_taskId task1,
                                      act_status = ''success'',
                                      act_details = details,
                                      act_metadata =
                                        [(''tokenAddress'', tokenAddress),
                                         (''tokenSymbol'', Some tokenSymbol),
                                         (''amount'', Some (showNumber pe amount)),
                                         (''price'', Some (showNumber pe (tp_price priceData))),
                                         (''conditionMet'', Some reason)],
                                      act_timestamp = 0,
                                      act_txHash = Some (pu_txHash purchaseResult),
                                      act_chainId = Some chainId\<rparr> w2;
                                   task2 = (if includes_str (toLowerCase priceCondition) ''once''
                                            then task1\<lparr>pt_status := Completed\<rparr> else task1)
                               in
                               (case pw_new_Date w3 of (d2, w4) \<Rightarrow>
                                  let task3 = task2\<lparr>pt_lastExecuted := Some d2\<rparr> in
                                  (case purchase_task_save task3 w4 of
                                     (Some err, w5) \<Rightarrow> (Inl err, Some task3, w5)
                                   | (None, w5) \<Rightarrow>
                                       (Inr \<lparr>res_status = SUCCESSFUL, res_message = details,
                                             res_details = Some purchaseResult\<rparr>,
                                        Some task3, w5))))))))"

text \<open>The \<open>catch\<close> block: for an assigned \<open>task\<close> it appends a failed history entry,
  saves and logs an activity (an error of that save escapes); in every case it resolves
  with a \<open>FAILED\<close> result.\<close>

definition processTokenPurchaseTask_catch ::
  "error \<Rightarrow> purchase_task option \<Rightarrow> purchase_world \<Rightarrow>
     (error + 'n process_result) \<times> purchase_world" where
  "processTokenPurchaseTask_catch err taskVar w =
    (case err of Error message \<Rightarrow>
     let failed = \<lparr>res_status = FAILED,
                   res_message = ''Error processing task: '' @ message,
                   res_details = None\<rparr> in
     case taskVar of
       None \<Rightarrow> (Inr failed, w)
     | Some task \<Rightarrow>
         (case pw_new_Date w of (d1, w1) \<Rightarrow>
            let task1 = task\<lparr>pt_executionHistory :=
                  pt_executionHistory task @
                    [\<lparr>er_timestamp = d1, er_status = FAILED,
                      er_details = ''Failed to process token purchase task'',
                      er_txHash = None, er_gasUsed = None,
                      er_errorMessage = Some message\<rparr>]\<rparr> in
            (case pw_new_Date w1 of (d2, w2) \<Rightarrow>
               let task2 = task1\<lparr>pt_lastExecuted := Some d2\<rparr> in
               (case purchase_task_save task2 w2 of
                  (Some err2, w3) \<Rightarrow> (Inl err2, w3)
                | (None, w3) \<Rightarrow>
                    (Inr failed,
                     createActivity
                       \<lparr>act_userId = pt_userId task2,
                        act_walletAddress = pt_walletAddress task2,
                        act_type = ''task_executed'',
                        act_taskType = pt_type task2,
                        act_taskId = pt_taskId task2,
                        act_status = ''failed'',
                        act_details = ''Failed to process token purchase task'',
                        act_metadata = [(''error'', Some message)],
                        act_timestamp = 0,
                        act_txHash = None,
                        act_chainId = None\<rparr> w3)))))"

text \<open>\<open>processTokenPurchaseTask(taskData)\<close>: \<open>Inl\<close> is a rejected promise.\<close>

definition processTokenPurchaseTask ::
  "'n purchase_env \<Rightarrow> sched_payload \<Rightarrow> purchase_world \<Rightarrow>
     (error + 'n process_result) \<times> purchase_world" where
  "processTokenPurchaseTask pe taskData w =
    (case processTokenPurchaseTask_try pe taskData w of
       (Inr result, taskVar, w1) \<Rightarrow> (Inr result, w1)
     | (Inl err, taskVar, w1) \<Rightarrow> processTokenPurchaseTask_catch err taskVar w1)"

section \<open>Sample data\<close>

text \<open>The user and the three tasks that \<open>scripts/seedData.ts\<close> creates, the task of the
  specification's price scenario, and a gateway that answers with given prices.\<close>

definition seedUser :: user where
  "seedUser = \<lparr>user_id = ''user1'', address = ''0xa11ce'', agentId = None\<rparr>"

definition noConditions :: task_conditions where
  "noConditions = \<lparr>conditionType = [], priceCondition = None, balanceCondition = None,
                    gasPriceCondition = None\<rparr>"

definition seedTask :: "string \<Rightarrow> task_conditions \<Rightarrow> task" where
  "seedTask i c =
    \<lparr>task_id = i, userId = ''user1'', task_type = ''eth-transfer'',
     sessionKeyId = Some ''0x5e55'',
     configuration = \<lparr>recipientAddress = Some ''0xf39f'', recipient = None,
                      amount = Some ''10000000000000000'', executionType = None\<rparr>,
     conditions = c, network = ''sepolia'', status = Active,
     lastExecutedAt = None, nextCheckAt = Some 60000, lastCheckedAt = None,
     executionHistory = []\<rparr>"

definition ethPriceTask :: task where
  "ethPriceTask = seedTask ''task1''
     (noConditions\<lparr>conditionType := ''price_threshold'',
        priceCondition := Some \<lparr>pc_type = ''below'', priceThreshold = Integral 300000000000,
                                 referencePrice = Some (Integral 315000000000)\<rparr>\<rparr>)"

definition gasPriceTask :: task where
  "gasPriceTask = seedTask ''task2''
     (noConditions\<lparr>conditionType := ''gas_price'',
        gasPriceCondition := Some \<lparr>gc_type = ''below'',
                                    gasPriceThreshold = Integral 20000000000\<rparr>\<rparr>)"

definition balanceTask :: task where
  "balanceTask = seedTask ''task3''
     (noConditions\<lparr>conditionType := ''balance_threshold'',
        balanceCondition := Some \<lparr>bc_type = ''above'',
                                   balanceThreshold = Integral 1000000000000000000\<rparr>\<rparr>)"

definition priceTask3000 :: task where
  "priceTask3000 = seedTask ''task4''
     (noConditions\<lparr>conditionType := ''price_threshold'',
        priceCondition := Some \<lparr>pc_type = ''below'', priceThreshold = Integral 3000,
                                 referencePrice = Some (Integral 3150)\<rparr>\<rparr>)"

text \<open>A task with the direction of its price and balance conditions reversed.\<close>

definition reversed :: "task \<Rightarrow> task" where
  "reversed t =
    t\<lparr>conditions := (conditions t)
        \<lparr>priceCondition :=
           map_option (\<lambda>pc. pc\<lparr>pc_type := (if pc_type pc = ''below'' then ''above''
                                             else ''below'')\<rparr>)
             (priceCondition (conditions t)),
         balanceCondition :=
           map_option (\<lambda>bc. bc\<lparr>bc_type := (if bc_type bc = ''below'' then ''above''
                                             else ''below'')\<rparr>)
             (balanceCondition (conditions t))\<rparr>\<rparr>"

definition sampleEnv :: "int \<Rightarrow> int \<Rightarrow> int \<Rightarrow> env" where
  "sampleEnv price gas bal =
    \<lparr>getETHPrice = Inr (Integral price),
     getGasPrice = Inr (Integral gas),
     getBalance = (\<lambda>a. Inr (Integral bal)),
     users = [seedUser],
     getSessionKey = (\<lambda>k. if k = ''0x5e55'' then Some \<lparr>privateKey = Some ''0xd00d''\<rparr>
                           else None),
     agentExecute = (\<lambda>c. Inl (Error ''agent unreachable'')),
     chainExecute = (\<lambda>c. \<lparr>success = True, r_transactionHash = Some ''0xbeef'',
                            r_error = None, r_details = None\<rparr>),
     ETH_TRANSFER_EXECUTOR_ADDRESS = Some ''0xe8ec'',
     NODE_ENV = Some ''production'',
     randomHex = ''1f''\<rparr>"

definition sampleWorld :: "task list \<Rightarrow> time \<Rightarrow> world" where
  "sampleWorld ts now =
    \<lparr>tasks = ts, executionQueue = [], chainCalls = [], clock = now, ticks = [],
     faults = []\<rparr>"

text \<open>The repeatable job that \<open>scheduleTaskMonitoring\<close> registers, a paused copy of the
  seeded price task, and a task whose condition type the evaluators do not know.\<close>

definition pollJob :: job where
  "pollJob = \<lparr>taskId = [], taskType = ''eth-transfer'', jobNetwork = ''sepolia''\<rparr>"

definition pausedTask :: task where
  "pausedTask = ethPriceTask\<lparr>status := Paused\<rparr>"

definition unknownTask :: task where
  "unknownTask = seedTask ''task5'' (noConditions\<lparr>conditionType := ''volume_spike''\<rparr>)"

text \<open>A gateway whose gas price call times out, and a world whose next write fails.\<close>

definition timeoutEnv :: env where
  "timeoutEnv = (sampleEnv 0 0 0)\<lparr>getGasPrice := Inl (Error ''timeout'')\<rparr>"

definition queueDownWorld :: world where
  "queueDownWorld = (sampleWorld [gasPriceTask] 100000)\<lparr>faults := [True]\<rparr>"

text \<open>The seeded tasks carry no \<open>executionType\<close>. A one-time and a recurring copy of the
  seeded gas task, the result the sample chain call returns, and a run that delivers
  the same execution job three times.\<close>

definition oneTimeTask :: task where
  "oneTimeTask =
     gasPriceTask\<lparr>configuration := (configuration gasPriceTask)\<lparr>executionType := Some ''one-time''\<rparr>\<rparr>"

definition recurringTask :: task where
  "recurringTask =
     gasPriceTask\<lparr>configuration := (configuration gasPriceTask)\<lparr>executionType := Some ''recurring''\<rparr>\<rparr>"

definition chainResult :: exec_result where
  "chainResult = \<lparr>success = True, r_transactionHash = Some ''0xbeef'', r_error = None, r_details = None\<rparr>"

definition sampleEvents :: "event list" where
  "sampleEvents =
     [Poll (sampleEnv 0 15000000000 0) pollJob,
      Execute (sampleEnv 0 15000000000 0) (executionJob gasPriceTask),
      Execute (sampleEnv 0 15000000000 0) (executionJob gasPriceTask),
      Poll (sampleEnv 0 15000000000 0) pollJob,
      Execute (sampleEnv 0 15000000000 0) (executionJob gasPriceTask)]"


text \<open>Tasks and queues of the second backend.\<close>

definition sampleSchedTask :: "string \<Rightarrow> task_status \<Rightarrow> sched_task" where
  "sampleSchedTask i st =
    \<lparr>st_taskId = i, st_walletAddress = ''0xa11ce'', st_userId = ''user1'',
     st_rules = [''token_price_rule''], st_metadata = [], st_type = ''buy_token'',
     st_status = st\<rparr>"

definition emptyQueues :: sched_world where
  "emptyQueues = \<lparr>queues = (\<lambda>q. []), queueFaults = []\<rparr>"

text \<open>A token purchase task, its queue payload and a price feed over the integers:
  the token costs 90 after 100, and the sample condition check asks for a fall.\<close>

definition samplePurchaseTask :: "string \<Rightarrow> purchase_task" where
  "samplePurchaseTask c =
    \<lparr>pt_taskId = ''buy1'', pt_userId = ''user1'', pt_walletAddress = ''0xA11CE'',
     pt_type = ''buy_token'', pt_status = Active,
     pt_rules = [\<lparr>rule_type = ''token_price_rule'', rule_condition = c,
                  rule_parameters = \<lparr>rp_tokenAddress = Some ''0x70ce'', rp_amount = Some ''5'',
                                      rp_maxPrice = None, rp_chainId = None,
                                      rp_tokenSymbol = Some ''TKN''\<rparr>\<rparr>],
     pt_lastExecuted = None, pt_executionHistory = []\<rparr>"

definition samplePayload :: "string \<Rightarrow> sched_payload" where
  "samplePayload i =
    \<lparr>p_taskId = i, p_walletAddress = ''0xA11CE'', p_userId = ''user1'',
     p_rules = [''token_price_rule''], p_metadata = [], p_type = ''buy_token''\<rparr>"

definition samplePurchaseEnv :: "int purchase_env" where
  "samplePurchaseEnv =
    \<lparr>parseFloat = (\<lambda>s. if s = Some ''5'' then 5 else 0),
     showNumber = (\<lambda>n. if n = 5 then ''5'' else if n = 90 then ''90'' else ''0''),
     getTokenPrice = (\<lambda>a c. Inr \<lparr>tp_price = 90, tp_previousPrice = 100\<rparr>),
     checkPriceCondition = (\<lambda>p c m prev. (p < prev, ''Price fell'')),
     simulateTokenPurchase = (\<lambda>wa a amt p c.
        \<lparr>pu_txHash = ''0xfeed'', pu_gasUsed = 21000, pu_amount = amt,
         pu_pricePerToken = p, pu_totalCost = amt * p\<rparr>)\<rparr>"

definition samplePurchaseWorld :: "purchase_task list \<Rightarrow> purchase_world" where
  "samplePurchaseWorld ts =
    \<lparr>pw_tasks = ts, pw_activities = [], pw_purchases = [], pw_clock = 100000,
     pw_ticks = [], pw_faults = []\<rparr>"

section \<open>Condition evaluation\<close>

lemmas evaluator_defs =
  handleETHTransferCondition_def handleETHTransferCondition_try_def
  isETHTransferConditionMet_def isETHTransferConditionMet_try_def
  bindE_def BigInt_def

lemmas sample_defs =
  seedUser_def noConditions_def seedTask_def ethPriceTask_def gasPriceTask_def
  balanceTask_def priceTask3000_def sampleEnv_def sampleWorld_def pollJob_def
  pausedTask_def unknownTask_def sampleSchedTask_def emptyQueues_def
  timeoutEnv_def queueDownWorld_def

lemma handle_gas_price:
  assumes "conditionType (conditions t) = ''gas_price''"
      and "gasPriceCondition (conditions t) = Some gc"
      and "gasPriceThreshold gc = Integral th"
      and "getGasPrice e = Inr (Integral g)"
      and "truthy (sessionKeyId t)"
  shows "handleETHTransferCondition e t = (gc_type gc = ''below'' \<and> g \<le> th)"
  using assms by (simp add: evaluator_defs)

lemma isMet_gas_price:
  assumes "gasPriceCondition c = Some gc"
      and "gasPriceThreshold gc = Integral th"
      and "getGasPrice e = Inr (Integral g)"
  shows "isETHTransferConditionMet e store tid ''gas_price'' c
           = (gc_type gc = ''below'' \<and> g \<le> th)"
  using assms by (simp add: evaluator_defs)

text \<open>
  Claim C1. A \<open>gas_price\<close> condition triggers only in direction \<open>below\<close>: when the
  gateway returns the gas price \<open>g\<close> and the condition carries the threshold \<open>th\<close>,
  both evaluators answer met exactly when the direction is \<open>below\<close> and \<open>g \<le> th\<close>;
  every other direction is not met. (\<open>handleETHTransferCondition\<close> reaches the fetch
  only for a task that has a session key.)
\<close>

theorem C1_gas_price_only_below:
  assumes "conditionType (conditions t) = ''gas_price''"
      and "gasPriceCondition (conditions t) = Some gc"
      and "gasPriceThreshold gc = Integral th"
      and "getGasPrice e = Inr (Integral g)"
      and "truthy (sessionKeyId t)"
  shows "handleETHTransferCondition e t = (gc_type gc = ''below'' \<and> g \<le> th) \<and>
         isETHTransferConditionMet e store (task_id t) (conditionType (conditions t))
             (conditions t) = (gc_type gc = ''below'' \<and> g \<le> th)"
  using assms handle_gas_price [OF assms] isMet_gas_price [of "conditions t" gc th e g]
  by simp

text \<open>The scenario of C1: threshold 20 gwei; 15 gwei is met, 25 gwei is not.\<close>

theorem C1_gas_price_witness:
  "handleETHTransferCondition (sampleEnv 0 15000000000 0) gasPriceTask \<and>
   isETHTransferConditionMet (sampleEnv 0 15000000000 0) [gasPriceTask] ''task2''
      ''gas_price'' (conditions gasPriceTask) \<and>
   \<not> handleETHTransferCondition (sampleEnv 0 25000000000 0) gasPriceTask \<and>
   \<not> isETHTransferConditionMet (sampleEnv 0 25000000000 0) [gasPriceTask] ''task2''
      ''gas_price'' (conditions gasPriceTask)"
  using C1_gas_price_only_below [where t = gasPriceTask and e = "sampleEnv 0 15000000000 0"
          and g = 15000000000 and th = 20000000000 and store = "[gasPriceTask]"
          and gc = "\<lparr>gc_type = ''below'', gasPriceThreshold = Integral 20000000000\<rparr>"]
        C1_gas_price_only_below [where t = gasPriceTask and e = "sampleEnv 0 25000000000 0"
          and g = 25000000000 and th = 20000000000 and store = "[gasPriceTask]"
          and gc = "\<lparr>gc_type = ''below'', gasPriceThreshold = Integral 20000000000\<rparr>"]
  by (simp add: sample_defs truthy_def)

lemma handle_price_below:
  assumes "conditionType (conditions t) = ''price_threshold''"
      and "priceCondition (conditions t) = Some pc"
      and "pc_type pc = ''below''"
      and "priceThreshold pc = Integral th"
      and "truthy (sessionKeyId t)"
      and "getETHPrice e = Inr (Integral p)"
  shows "handleETHTransferCondition e t = (p \<le> th)"
  using assms by (simp add: evaluator_defs)

lemma handle_price_above:
  assumes "conditionType (conditions t) = ''price_threshold''"
      and "priceCondition (conditions t) = Some pc"
      and "pc_type pc = ''above''"
      and "priceThreshold pc = Integral th"
      and "truthy (sessionKeyId t)"
      and "getETHPrice e = Inr (Integral p)"
  shows "handleETHTransferCondition e t = (th \<le> p)"
  using assms by (simp add: evaluator_defs)

lemma isMet_price_below:
  assumes "priceCondition c = Some pc"
      and "pc_type pc = ''below''"
      and "priceThreshold pc = Integral th"
      and "referencePrice_ok pc"
      and "getETHPrice e = Inr (Integral p)"
  shows "isETHTransferConditionMet e store tid ''price_threshold'' c = (p \<le> th)"
  using assms
  by (cases "referencePrice pc"; cases "the (referencePrice pc)")
     (simp_all add: evaluator_defs referencePrice_ok_def)

lemma isMet_price_above:
  assumes "priceCondition c = Some pc"
      and "pc_type pc = ''above''"
      and "priceThreshold pc = Integral th"
      and "referencePrice_ok pc"
      and "getETHPrice e = Inr (Integral p)"
  shows "isETHTransferConditionMet e store tid ''price_threshold'' c = (th \<le> p)"
  using assms
  by (cases "referencePrice pc"; cases "the (referencePrice pc)")
     (simp_all add: evaluator_defs referencePrice_ok_def)

text \<open>
  Claim C2. For a task with a \<open>price_threshold\<close> condition of direction \<open>below\<close> and
  \<open>priceThreshold\<close> 3000, a current price of 2900 is met and a current price of 3100 is
  not met, in \<open>handleETHTransferCondition\<close> (for a task with a session key) and in
  \<open>isETHTransferConditionMet\<close> (for a reference price that is absent or integral, such
  as the 3150 of the scenario).
\<close>

theorem C2_price_below_3000:
  assumes "conditionType (conditions t) = ''price_threshold''"
      and "priceCondition (conditions t) = Some pc"
      and "pc_type pc = ''below''"
      and "priceThreshold pc = Integral 3000"
      and "truthy (sessionKeyId t)"
      and "referencePrice_ok pc"
  shows "handleETHTransferCondition (e\<lparr>getETHPrice := Inr (Integral 2900)\<rparr>) t \<and>
         \<not> handleETHTransferCondition (e\<lparr>getETHPrice := Inr (Integral 3100)\<rparr>) t \<and>
         isETHTransferConditionMet (e\<lparr>getETHPrice := Inr (Integral 2900)\<rparr>) store
            (task_id t) (conditionType (conditions t)) (conditions t) \<and>
         \<not> isETHTransferConditionMet (e\<lparr>getETHPrice := Inr (Integral 3100)\<rparr>) store
            (task_id t) (conditionType (conditions t)) (conditions t)"
proof -
  have h1: "handleETHTransferCondition (e\<lparr>getETHPrice := Inr (Integral 2900)\<rparr>) t
              = (2900 \<le> (3000::int))"
    by (rule handle_price_below [OF assms(1-5)]) simp
  have h2: "handleETHTransferCondition (e\<lparr>getETHPrice := Inr (Integral 3100)\<rparr>) t
              = (3100 \<le> (3000::int))"
    by (rule handle_price_below [OF assms(1-5)]) simp
  have m1: "isETHTransferConditionMet (e\<lparr>getETHPrice := Inr (Integral 2900)\<rparr>) store
              (task_id t) ''price_threshold'' (conditions t) = (2900 \<le> (3000::int))"
    by (rule isMet_price_below [OF assms(2-4) assms(6)]) simp
  have m2: "isETHTransferConditionMet (e\<lparr>getETHPrice := Inr (Integral 3100)\<rparr>) store
              (task_id t) ''price_threshold'' (conditions t) = (3100 \<le> (3000::int))"
    by (rule isMet_price_below [OF assms(2-4) assms(6)]) simp
  from h1 h2 m1 m2 show ?thesis by (simp add: assms(1))
qed

text \<open>The round trip of the specification: \<open>type = below\<close>, \<open>priceThreshold = 3000\<close>,
  \<open>referencePrice = 3150\<close>.\<close>

theorem C2_price_below_3000_witness:
  "handleETHTransferCondition (sampleEnv 2900 0 0) priceTask3000 \<and>
   \<not> handleETHTransferCondition (sampleEnv 3100 0 0) priceTask3000 \<and>
   isETHTransferConditionMet (sampleEnv 2900 0 0) [priceTask3000] ''task4''
      ''price_threshold'' (conditions priceTask3000) \<and>
   \<not> isETHTransferConditionMet (sampleEnv 3100 0 0) [priceTask3000] ''task4''
      ''price_threshold'' (conditions priceTask3000)"
  using C2_price_below_3000 [where t = priceTask3000 and e = "sampleEnv 0 0 0"
          and store = "[priceTask3000]"
          and pc = "\<lparr>pc_type = ''below'', priceThreshold = Integral 3000,
                      referencePrice = Some (Integral 3150)\<rparr>"]
  by (simp add: sample_defs truthy_def referencePrice_ok_def)

lemma handle_balance_above:
  assumes "conditionType (conditions t) = ''balance_threshold''"
      and "balanceCondition (conditions t) = Some bc"
      and "bc_type bc = ''above''"
      and "balanceThreshold bc = Integral th"
      and "truthy (sessionKeyId t)"
      and "User_findById (userId t) (users e) = Some u"
      and "getBalance e (address u) = Inr (Integral b)"
  shows "handleETHTransferCondition e t = (th \<le> b)"
  using assms by (simp add: evaluator_defs)

lemma handle_balance_below:
  assumes "conditionType (conditions t) = ''balance_threshold''"
      and "balanceCondition (conditions t) = Some bc"
      and "bc_type bc = ''below''"
      and "balanceThreshold bc = Integral th"
      and "truthy (sessionKeyId t)"
      and "User_findById (userId t) (users e) = Some u"
      and "getBalance e (address u) = Inr (Integral b)"
  shows "handleETHTransferCondition e t = (b \<le> th)"
  using assms by (simp add: evaluator_defs)

lemma isMet_balance_above:
  assumes "balanceCondition c = Some bc"
      and "bc_type bc = ''above''"
      and "balanceThreshold bc = Integral th"
      and "findById tid store = Some t"
      and "User_findById (userId t) (users e) = Some u"
      and "getBalance e (address u) = Inr (Integral b)"
  shows "isETHTransferConditionMet e store tid ''balance_threshold'' c = (th \<le> b)"
  using assms by (simp add: evaluator_defs)

lemma isMet_balance_below:
  assumes "balanceCondition c = Some bc"
      and "bc_type bc = ''below''"
      and "balanceThreshold bc = Integral th"
      and "findById tid store = Some t"
      and "User_findById (userId t) (users e) = Some u"
      and "getBalance e (address u) = Inr (Integral b)"
  shows "isETHTransferConditionMet e store tid ''balance_threshold'' c = (b \<le> th)"
  using assms by (simp add: evaluator_defs)

text \<open>
  Claim C10. Threshold comparisons are inclusive: when the fetched price or balance
  equals the threshold \<open>v\<close>, a \<open>price_threshold\<close> and a \<open>balance_threshold\<close> condition are
  met in direction \<open>above\<close> and also in direction \<open>below\<close>, in both evaluators.
\<close>

theorem C10_inclusive_at_threshold:
  assumes "dir = ''above'' \<or> dir = ''below''"
      and "truthy (sessionKeyId t)"
  shows "(conditionType (conditions t) = ''price_threshold'' \<and>
          priceCondition (conditions t) = Some pc \<and> pc_type pc = dir \<and>
          priceThreshold pc = Integral v \<and> referencePrice_ok pc \<and>
          getETHPrice e = Inr (Integral v)
          \<longrightarrow> handleETHTransferCondition e t \<and>
              isETHTransferConditionMet e store (task_id t) ''price_threshold''
                (conditions t))
       \<and> (conditionType (conditions t) = ''balance_threshold'' \<and>
          balanceCondition (conditions t) = Some bc \<and> bc_type bc = dir \<and>
          balanceThreshold bc = Integral v \<and> findById (task_id t) store = Some t \<and>
          User_findById (userId t) (users e) = Some u \<and>
          getBalance e (address u) = Inr (Integral v)
          \<longrightarrow> handleETHTransferCondition e t \<and>
              isETHTransferConditionMet e store (task_id t) ''balance_threshold''
                (conditions t))"
proof (intro conjI impI)
  assume h: "conditionType (conditions t) = ''price_threshold'' \<and>
          priceCondition (conditions t) = Some pc \<and> pc_type pc = dir \<and>
          priceThreshold pc = Integral v \<and> referencePrice_ok pc \<and>
          getETHPrice e = Inr (Integral v)"
  from assms(1) show "handleETHTransferCondition e t"
  proof
    assume "dir = ''above''"
    with h assms(2) handle_price_above [of t pc v e v] show ?thesis by simp
  next
    assume "dir = ''below''"
    with h assms(2) handle_price_below [of t pc v e v] show ?thesis by simp
  qed
  from assms(1)
  show "isETHTransferConditionMet e store (task_id t) ''price_threshold'' (conditions t)"
  proof
    assume "dir = ''above''"
    with h isMet_price_above [of "conditions t" pc v e v store "task_id t"]
    show ?thesis by simp
  next
    assume "dir = ''below''"
    with h isMet_price_below [of "conditions t" pc v e v store "task_id t"]
    show ?thesis by simp
  qed
next
  assume h: "conditionType (conditions t) = ''balance_threshold'' \<and>
          balanceCondition (conditions t) = Some bc \<and> bc_type bc = dir \<and>
          balanceThreshold bc = Integral v \<and> findById (task_id t) store = Some t \<and>
          User_findById (userId t) (users e) = Some u \<and>
          getBalance e (address u) = Inr (Integral v)"
  from assms(1) show "handleETHTransferCondition e t"
  proof
    assume "dir = ''above''"
    with h assms(2) handle_balance_above [of t bc v e u v] show ?thesis by simp
  next
    assume "dir = ''below''"
    with h assms(2) handle_balance_below [of t bc v e u v] show ?thesis by simp
  qed
  from assms(1)
  show "isETHTransferConditionMet e store (task_id t) ''balance_threshold'' (conditions t)"
  proof
    assume "dir = ''above''"
    with h isMet_balance_above [of "conditions t" bc v "task_id t" store t e u v]
    show ?thesis by simp
  next
    assume "dir = ''below''"
    with h isMet_balance_below [of "conditions t" bc v "task_id t" store t e u v]
    show ?thesis by simp
  qed
qed

text \<open>The seeded price task against the mock price of \<open>getETHPrice\<close>, which equals its
  threshold, and the seeded balance task against a balance of exactly one ether; each
  also with the direction reversed.\<close>

theorem C10_inclusive_at_threshold_witness:
  "getETHPrice (sampleEnv 300000000000 0 1000000000000000000) = BlockchainService_getETHPrice \<and>
   handleETHTransferCondition (sampleEnv 300000000000 0 1000000000000000000) ethPriceTask \<and>
   isETHTransferConditionMet (sampleEnv 300000000000 0 1000000000000000000) [ethPriceTask]
     ''task1'' ''price_threshold'' (conditions ethPriceTask) \<and>
   handleETHTransferCondition (sampleEnv 300000000000 0 1000000000000000000)
     (reversed ethPriceTask) \<and>
   isETHTransferConditionMet (sampleEnv 300000000000 0 1000000000000000000)
     [reversed ethPriceTask] ''task1'' ''price_threshold''
     (conditions (reversed ethPriceTask)) \<and>
   handleETHTransferCondition (sampleEnv 300000000000 0 1000000000000000000) balanceTask \<and>
   isETHTransferConditionMet (sampleEnv 300000000000 0 1000000000000000000) [balanceTask]
     ''task3'' ''balance_threshold'' (conditions balanceTask) \<and>
   handleETHTransferCondition (sampleEnv 300000000000 0 1000000000000000000)
     (reversed balanceTask) \<and>
   isETHTransferConditionMet (sampleEnv 300000000000 0 1000000000000000000)
     [reversed balanceTask] ''task3'' ''balance_threshold''
     (conditions (reversed balanceTask))"
  using C10_inclusive_at_threshold [where dir = "''below''" and t = ethPriceTask
          and e = "sampleEnv 300000000000 0 1000000000000000000"
          and store = "[ethPriceTask]" and v = 300000000000
          and pc = "\<lparr>pc_type = ''below'', priceThreshold = Integral 300000000000,
                      referencePrice = Some (Integral 315000000000)\<rparr>"]
        C10_inclusive_at_threshold [where dir = "''above''" and t = "reversed ethPriceTask"
          and e = "sampleEnv 300000000000 0 1000000000000000000"
          and store = "[reversed ethPriceTask]" and v = 300000000000
          and pc = "\<lparr>pc_type = ''above'', priceThreshold = Integral 300000000000,
                      referencePrice = Some (Integral 315000000000)\<rparr>"]
        C10_inclusive_at_threshold [where dir = "''above''" and t = balanceTask
          and e = "sampleEnv 300000000000 0 1000000000000000000"
          and store = "[balanceTask]" and v = 1000000000000000000 and u = seedUser
          and bc = "\<lparr>bc_type = ''above'',
                      balanceThreshold = Integral 1000000000000000000\<rparr>"]
        C10_inclusive_at_threshold [where dir = "''below''" and t = "reversed balanceTask"
          and e = "sampleEnv 300000000000 0 1000000000000000000"
          and store = "[reversed balanceTask]" and v = 1000000000000000000 and u = seedUser
          and bc = "\<lparr>bc_type = ''below'',
                      balanceThreshold = Integral 1000000000000000000\<rparr>"]
  by (simp add: sample_defs truthy_def referencePrice_ok_def reversed_def
        BlockchainService_getETHPrice_def findById_def User_findById_def)

section \<open>The monitor loop\<close>

lemma new_Date_effect:
  "new_Date w = (d, w') \<Longrightarrow>
     clock w \<le> d \<and> clock w' = d \<and> tasks w' = tasks w \<and>
     executionQueue w' = executionQueue w \<and> chainCalls w' = chainCalls w \<and>
     faults w' = faults w"
  by (auto simp: new_Date_def split: list.splits)

lemma task_save_effect:
  "task_save t w = (r, w') \<Longrightarrow>
     clock w' = clock w \<and> executionQueue w' = executionQueue w \<and>
     chainCalls w' = chainCalls w \<and> ticks w' = ticks w \<and>
     tasks w' = (if r = None then replaceById t (tasks w) else tasks w)"
  by (auto simp: task_save_def external_write_def split: list.splits bool.splits)

lemma executionQueue_add_effect:
  "executionQueue_add j opts w = (r, w') \<Longrightarrow>
     clock w' = clock w \<and> tasks w' = tasks w \<and>
     chainCalls w' = chainCalls w \<and> ticks w' = ticks w \<and>
     executionQueue w' = (if r = None then executionQueue w @ [(j, opts)] else executionQueue w)"
  by (auto simp: executionQueue_add_def external_write_def split: list.splits bool.splits)

text \<open>The \<open>catch\<close> block of the loop body.\<close>

lemma monitorTask_catch_effect:
  assumes "monitorTask_catch t w = (r, w')"
  shows "\<exists>d1 d2. clock w \<le> d1 \<and> d1 \<le> d2 \<and> d2 = clock w' \<and>
            executionQueue w' = executionQueue w \<and> chainCalls w' = chainCalls w \<and>
            tasks w' = (if r = None
               then replaceById
                      (t\<lparr>lastCheckedAt := Some d1, nextCheckAt := Some (d2 + 900000)\<rparr>) (tasks w)
               else tasks w)"
proof -
  obtain d1 w1 where a: "new_Date w = (d1, w1)" by (cases "new_Date w")
  obtain d2 w2 where b: "new_Date w1 = (d2, w2)" by (cases "new_Date w1")
  from assms a b have c: "task_save (t\<lparr>lastCheckedAt := Some d1, nextCheckAt := Some (d2 + 900000)\<rparr>) w2 = (r, w')"
    by (simp add: monitorTask_catch_def Let_def)
  show ?thesis
    apply (rule exI[of _ d1], rule exI[of _ d2])
    using new_Date_effect[OF a] new_Date_effect[OF b] task_save_effect[OF c]
    by simp
qed

text \<open>The \<open>try\<close> block of the loop body, when the condition is not met and when it is.\<close>

lemma monitorTask_try_not_met:
  assumes "\<not> handleETHTransferCondition e t" "monitorTask_try e t w = (r, t1, w1)"
  shows "\<exists>d1 d2. clock w \<le> d1 \<and> d1 \<le> d2 \<and> d2 = clock w1 \<and>
            t1 = t\<lparr>lastCheckedAt := Some d1, nextCheckAt := Some (d2 + 300000)\<rparr> \<and>
            executionQueue w1 = executionQueue w \<and> chainCalls w1 = chainCalls w \<and>
            tasks w1 = (if r = None then replaceById t1 (tasks w) else tasks w)"
proof -
  obtain d1 wa where a: "new_Date w = (d1, wa)" by (cases "new_Date w")
  obtain d2 wb where b: "new_Date wa = (d2, wb)" by (cases "new_Date wa")
  obtain r' wc where c: "task_save (t\<lparr>lastCheckedAt := Some d1, nextCheckAt := Some (d2 + 300000)\<rparr>) wb = (r', wc)"
    by (cases "task_save (t\<lparr>lastCheckedAt := Some d1, nextCheckAt := Some (d2 + 300000)\<rparr>) wb")
  from assms a b c have d: "r = r'" "w1 = wc" "t1 = t\<lparr>lastCheckedAt := Some d1, nextCheckAt := Some (d2 + 300000)\<rparr>"
    by (simp_all add: monitorTask_try_def Let_def)
  show ?thesis
    apply (rule exI[of _ d1], rule exI[of _ d2])
    using new_Date_effect[OF a] new_Date_effect[OF b] task_save_effect[OF c] d
    by simp
qed

lemma monitorTask_try_met:
  assumes "handleETHTransferCondition e t" "monitorTask_try e t w = (r, t1, w1)"
  shows "(r \<noteq> None \<and> t1 = t \<and> tasks w1 = tasks w \<and> executionQueue w1 = executionQueue w \<and>
            chainCalls w1 = chainCalls w \<and> clock w1 = clock w) \<or>
         (\<exists>d. clock w \<le> d \<and> d = clock w1 \<and> t1 = t\<lparr>lastCheckedAt := Some d\<rparr> \<and>
            executionQueue w1 = executionQueue w @ [(executionJob t, executionJobOpts)] \<and>
            chainCalls w1 = chainCalls w \<and>
            tasks w1 = (if r = None then replaceById t1 (tasks w) else tasks w))"
proof -
  obtain ra wa where a: "executionQueue_add (executionJob t) executionJobOpts w = (ra, wa)"
    by (cases "executionQueue_add (executionJob t) executionJobOpts w")
  show ?thesis
  proof (cases ra)
    case (Some err)
    with assms a have "r = Some err" "t1 = t" "w1 = wa"
      by (simp_all add: monitorTask_try_def)
    with executionQueue_add_effect[OF a] Some show ?thesis by simp
  next
    case None
    obtain d wb where b: "new_Date wa = (d, wb)" by (cases "new_Date wa")
    obtain r' wc where c: "task_save (t\<lparr>lastCheckedAt := Some d\<rparr>) wb = (r', wc)"
      by (cases "task_save (t\<lparr>lastCheckedAt := Some d\<rparr>) wb")
    from assms a None b c have d: "r = r'" "w1 = wc" "t1 = t\<lparr>lastCheckedAt := Some d\<rparr>"
      by (simp_all add: monitorTask_try_def Let_def)
    have "\<exists>d. clock w \<le> d \<and> d = clock w1 \<and> t1 = t\<lparr>lastCheckedAt := Some d\<rparr> \<and>
            executionQueue w1 = executionQueue w @ [(executionJob t, executionJobOpts)] \<and>
            chainCalls w1 = chainCalls w \<and>
            tasks w1 = (if r = None then replaceById t1 (tasks w) else tasks w)"
      apply (rule exI[of _ d])
      using executionQueue_add_effect[OF a] new_Date_effect[OF b] task_save_effect[OF c] d None
      by simp
    then show ?thesis by blast
  qed
qed


text \<open>The loop body as a whole: it rewrites at most the two scheduling fields of the
  task it processes, and publishes at most one job, for that task.\<close>

lemma monitorTask_effect:
  assumes "monitorTask e t w = (r, w')"
  shows "\<exists>t'. t' = t\<lparr>lastCheckedAt := lastCheckedAt t', nextCheckAt := nextCheckAt t'\<rparr> \<and>
           (tasks w' = tasks w \<or> tasks w' = replaceById t' (tasks w)) \<and>
           (executionQueue w' = executionQueue w \<or>
            (handleETHTransferCondition e t \<and>
             executionQueue w' = executionQueue w @ [(executionJob t, executionJobOpts)])) \<and>
           chainCalls w' = chainCalls w \<and> clock w \<le> clock w'"
proof -
  obtain x t1 w1 where tr: "monitorTask_try e t w = (x, t1, w1)"
    by (cases "monitorTask_try e t w") auto
  have try_eff: "t1 = t\<lparr>lastCheckedAt := lastCheckedAt t1, nextCheckAt := nextCheckAt t1\<rparr> \<and>
           (tasks w1 = tasks w \<or> (x = None \<and> tasks w1 = replaceById t1 (tasks w))) \<and>
           (executionQueue w1 = executionQueue w \<or>
            (handleETHTransferCondition e t \<and>
             executionQueue w1 = executionQueue w @ [(executionJob t, executionJobOpts)])) \<and>
           chainCalls w1 = chainCalls w \<and> clock w \<le> clock w1"
  proof (cases "handleETHTransferCondition e t")
    case True
    from monitorTask_try_met[OF True tr]
    consider (addFailed) "t1 = t \<and> tasks w1 = tasks w \<and> executionQueue w1 = executionQueue w \<and>
            chainCalls w1 = chainCalls w \<and> clock w1 = clock w"
      | (added) d where "clock w \<le> d" "d = clock w1" "t1 = t\<lparr>lastCheckedAt := Some d\<rparr>"
            "executionQueue w1 = executionQueue w @ [(executionJob t, executionJobOpts)]"
            "chainCalls w1 = chainCalls w"
            "tasks w1 = (if x = None then replaceById t1 (tasks w) else tasks w)"
      by blast
    then show ?thesis
    proof cases
      case addFailed
      then show ?thesis by simp
    next
      case added
      have "t1 = t\<lparr>lastCheckedAt := lastCheckedAt t1, nextCheckAt := nextCheckAt t1\<rparr>"
        by (subst (1 2 3) added(3)) simp
      with added True show ?thesis by (simp split: if_splits)
    qed
  next
    case False
    from monitorTask_try_not_met[OF False tr]
    obtain d1 d2 where d: "clock w \<le> d1" "d1 \<le> d2" "d2 = clock w1"
            "t1 = t\<lparr>lastCheckedAt := Some d1, nextCheckAt := Some (d2 + 300000)\<rparr>"
            "executionQueue w1 = executionQueue w" "chainCalls w1 = chainCalls w"
            "tasks w1 = (if x = None then replaceById t1 (tasks w) else tasks w)" by blast
    have "t1 = t\<lparr>lastCheckedAt := lastCheckedAt t1, nextCheckAt := nextCheckAt t1\<rparr>"
      by (subst (1 2 3) d(4)) simp
    with d show ?thesis by (simp split: if_splits)
  qed
  show ?thesis
  proof (cases x)
    case None
    with tr assms have "w' = w1" "r = None" by (simp_all add: monitorTask_def)
    with try_eff show ?thesis by (intro exI[of _ t1]) auto
  next
    case (Some err)
    with tr assms have c: "monitorTask_catch t1 w1 = (r, w')" by (simp add: monitorTask_def)
    from try_eff Some have s1: "tasks w1 = tasks w"
      and t1: "t1 = t\<lparr>lastCheckedAt := lastCheckedAt t1, nextCheckAt := nextCheckAt t1\<rparr>"
      and q1: "executionQueue w1 = executionQueue w \<or>
            (handleETHTransferCondition e t \<and>
             executionQueue w1 = executionQueue w @ [(executionJob t, executionJobOpts)])"
      and c1: "chainCalls w1 = chainCalls w" "clock w \<le> clock w1" by auto
    from monitorTask_catch_effect[OF c] obtain d1 d2 where
      cc: "clock w1 \<le> d1" "d1 \<le> d2" "d2 = clock w'" "executionQueue w' = executionQueue w1"
          "chainCalls w' = chainCalls w1"
          "tasks w' = (if r = None
               then replaceById
                      (t1\<lparr>lastCheckedAt := Some d1, nextCheckAt := Some (d2 + 900000)\<rparr>) (tasks w1)
               else tasks w1)" by blast
    let ?t' = "t1\<lparr>lastCheckedAt := Some d1, nextCheckAt := Some (d2 + 900000)\<rparr>"
    have "?t' = t\<lparr>lastCheckedAt := lastCheckedAt ?t', nextCheckAt := nextCheckAt ?t'\<rparr>"
      by (subst t1) simp
    moreover have "tasks w' = tasks w \<or> tasks w' = replaceById ?t' (tasks w)"
      using cc(6) s1 by (simp split: if_splits)
    ultimately show ?thesis using q1 c1 cc(1-5) by (intro exI[of _ ?t']) auto
  qed
qed

lemma replaceById_ids: "map task_id (replaceById t ts) = map task_id ts"
  by (induction ts) (simp_all add: replaceById_def)

lemma replaceById_status:
  "\<forall>u\<in>set ts. task_id u = task_id t \<longrightarrow> status u = status t
     \<Longrightarrow> map status (replaceById t ts) = map status ts"
  by (induction ts) (simp_all add: replaceById_def)

lemma replaceById_other:
  "u \<in> set ts \<Longrightarrow> task_id u \<noteq> task_id t \<Longrightarrow> u \<in> set (replaceById t ts)"
  by (induction ts) (auto simp: replaceById_def)

lemma replaceById_member:
  "u \<in> set (replaceById t ts) \<Longrightarrow> u \<in> set ts \<or> u = t"
  by (induction ts) (auto simp: replaceById_def split: if_splits)

lemma monitorTask_ids:
  assumes "monitorTask e t w = (r, w')"
  shows "map task_id (tasks w') = map task_id (tasks w)"
  using monitorTask_effect[OF assms] by (auto simp: replaceById_ids)

lemma monitorTask_status:
  assumes "monitorTask e t w = (r, w')"
      and "\<forall>u\<in>set (tasks w). task_id u = task_id t \<longrightarrow> status u = status t"
  shows "map status (tasks w') = map status (tasks w)"
proof -
  from monitorTask_effect[OF assms(1)] obtain t' where
    t': "t' = t\<lparr>lastCheckedAt := lastCheckedAt t', nextCheckAt := nextCheckAt t'\<rparr>"
    and s: "tasks w' = tasks w \<or> tasks w' = replaceById t' (tasks w)" by blast
  from t' have "task_id t' = task_id t" "status t' = status t"
    by (metis task.select_convs(1) task.surjective task.update_convs(10,11),
        metis task.select_convs(8) task.surjective task.update_convs(10,11))
  with assms(2) have "\<forall>u\<in>set (tasks w). task_id u = task_id t' \<longrightarrow> status u = status t'"
    by simp
  from replaceById_status[OF this] s show ?thesis by auto
qed

lemma monitorTask_keeps_other:
  assumes "monitorTask e t w = (r, w')" "u \<in> set (tasks w)" "task_id u \<noteq> task_id t"
  shows "u \<in> set (tasks w')"
proof -
  from monitorTask_effect[OF assms(1)] obtain t' where
    t': "t' = t\<lparr>lastCheckedAt := lastCheckedAt t', nextCheckAt := nextCheckAt t'\<rparr>"
    and s: "tasks w' = tasks w \<or> tasks w' = replaceById t' (tasks w)" by blast
  from t' have "task_id t' = task_id t"
    by (metis task.select_convs(1) task.surjective task.update_convs(10,11))
  with assms(2,3) s replaceById_other[of u "tasks w" t'] show ?thesis by auto
qed

lemma monitorTask_queue_other:
  assumes "monitorTask e t w = (r, w')" "i \<noteq> task_id t"
  shows "filter (\<lambda>q. taskId (fst q) = i) (executionQueue w')
           = filter (\<lambda>q. taskId (fst q) = i) (executionQueue w)"
  using monitorTask_effect[OF assms(1)] assms(2) by (auto simp: executionJob_def)

lemma monitorLoop_ids:
  "monitorLoop e ts w = (r, w') \<Longrightarrow> map task_id (tasks w') = map task_id (tasks w)"
proof (induction ts arbitrary: w)
  case Nil
  then show ?case by simp
next
  case (Cons t ts)
  obtain x w1 where m: "monitorTask e t w = (x, w1)" by (cases "monitorTask e t w")
  show ?case
  proof (cases x)
    case None
    with Cons.prems m have "monitorLoop e ts w1 = (r, w')" by simp
    from Cons.IH[OF this] monitorTask_ids[OF m] show ?thesis by simp
  next
    case (Some err)
    with Cons.prems m have "w' = w1" by simp
    with monitorTask_ids[OF m] show ?thesis by simp
  qed
qed

lemma monitorLoop_keeps_other:
  "monitorLoop e ts w = (r, w') \<Longrightarrow> u \<in> set (tasks w) \<Longrightarrow> task_id u \<notin> task_id ` set ts
     \<Longrightarrow> u \<in> set (tasks w')"
proof (induction ts arbitrary: w)
  case Nil
  then show ?case by simp
next
  case (Cons t ts)
  obtain x w1 where m: "monitorTask e t w = (x, w1)" by (cases "monitorTask e t w")
  from Cons.prems(3) have ne: "task_id u \<noteq> task_id t" "task_id u \<notin> task_id ` set ts" by auto
  from monitorTask_keeps_other[OF m Cons.prems(2) ne(1)] have u1: "u \<in> set (tasks w1)" .
  show ?case
  proof (cases x)
    case None
    with Cons.prems m have "monitorLoop e ts w1 = (r, w')" by simp
    from Cons.IH[OF this u1 ne(2)] show ?thesis .
  next
    case (Some err)
    with Cons.prems m have "w' = w1" by simp
    with u1 show ?thesis by simp
  qed
qed

lemma monitorLoop_queue_other:
  "monitorLoop e ts w = (r, w') \<Longrightarrow> i \<notin> task_id ` set ts
     \<Longrightarrow> filter (\<lambda>q. taskId (fst q) = i) (executionQueue w')
           = filter (\<lambda>q. taskId (fst q) = i) (executionQueue w)"
proof (induction ts arbitrary: w)
  case Nil
  then show ?case by simp
next
  case (Cons t ts)
  obtain x w1 where m: "monitorTask e t w = (x, w1)" by (cases "monitorTask e t w")
  from Cons.prems(2) have ne: "i \<noteq> task_id t" "i \<notin> task_id ` set ts" by auto
  show ?case
  proof (cases x)
    case None
    with Cons.prems m have "monitorLoop e ts w1 = (r, w')" by simp
    from Cons.IH[OF this ne(2)] monitorTask_queue_other[OF m ne(1)] show ?thesis by simp
  next
    case (Some err)
    with Cons.prems m have "w' = w1" by simp
    with monitorTask_queue_other[OF m ne(1)] show ?thesis by simp
  qed
qed

lemma same_ids_status:
  "map task_id xs = map task_id ys \<Longrightarrow> map status xs = map status ys \<Longrightarrow> u \<in> set xs
     \<Longrightarrow> \<exists>v\<in>set ys. task_id v = task_id u \<and> status v = status u"
proof (induction xs arbitrary: ys)
  case Nil
  then show ?case by simp
next
  case (Cons x xs)
  then obtain y ys' where ys: "ys = y # ys'" by (cases ys) auto
  with Cons.prems have h: "task_id x = task_id y" "status x = status y"
    "map task_id xs = map task_id ys'" "map status xs = map status ys'" by simp_all
  show ?case
  proof (cases "u = x")
    case True
    with h ys show ?thesis by simp
  next
    case False
    with Cons.prems(3) have "u \<in> set xs" by simp
    from Cons.IH[OF h(3) h(4) this] ys show ?thesis by auto
  qed
qed

lemma monitorLoop_status:
  "monitorLoop e ts w = (r, w') \<Longrightarrow>
   \<forall>t\<in>set ts. \<forall>u\<in>set (tasks w). task_id u = task_id t \<longrightarrow> status u = status t
     \<Longrightarrow> map status (tasks w') = map status (tasks w)"
proof (induction ts arbitrary: w)
  case Nil
  then show ?case by simp
next
  case (Cons t ts)
  obtain x w1 where m: "monitorTask e t w = (x, w1)" by (cases "monitorTask e t w")
  from Cons.prems(2) have
    here: "\<forall>u\<in>set (tasks w). task_id u = task_id t \<longrightarrow> status u = status t" by simp
  from monitorTask_status[OF m here] have st: "map status (tasks w1) = map status (tasks w)" .
  from monitorTask_ids[OF m] have ids: "map task_id (tasks w1) = map task_id (tasks w)" .
  show ?case
  proof (cases x)
    case None
    with Cons.prems m have l: "monitorLoop e ts w1 = (r, w')" by simp
    have "\<forall>t\<in>set ts. \<forall>u\<in>set (tasks w1). task_id u = task_id t \<longrightarrow> status u = status t"
    proof (intro ballI impI)
      fix t2 u assume t2: "t2 \<in> set ts" and u: "u \<in> set (tasks w1)" and e: "task_id u = task_id t2"
      from same_ids_status[OF ids st u] obtain v where
        v: "v \<in> set (tasks w)" "task_id v = task_id u" "status v = status u" by blast
      from Cons.prems(2) t2 v(1) have "task_id v = task_id t2 \<longrightarrow> status v = status t2"
        by simp
      with v e show "status u = status t2" by simp
    qed
    from Cons.IH[OF l this] st show ?thesis by simp
  next
    case (Some err)
    with Cons.prems m have "w' = w1" by simp
    with st show ?thesis by simp
  qed
qed

lemma distinct_ids_unique:
  "distinct (map task_id ts) \<Longrightarrow> t \<in> set ts \<Longrightarrow> u \<in> set ts \<Longrightarrow> task_id u = task_id t
     \<Longrightarrow> u = t"
  by (meson distinct_map inj_onD)

lemma dueQuery_active: "dueQuery now t \<Longrightarrow> status t = Active"
  by (simp add: dueQuery_def)

lemma monitorTaskConditions_status:
  assumes "distinct (map task_id (tasks w))"
  shows "map status (tasks (snd (monitorTaskConditions e j w))) = map status (tasks w)"
proof -
  obtain now w0 where n: "new_Date w = (now, w0)" by (cases "new_Date w")
  from new_Date_effect[OF n] have tw: "tasks w0 = tasks w" by simp
  obtain r w' where l: "monitorLoop e (Task_find (dueQuery now) w0) w0 = (r, w')"
    by (cases "monitorLoop e (Task_find (dueQuery now) w0) w0")
  have "\<forall>t\<in>set (Task_find (dueQuery now) w0). \<forall>u\<in>set (tasks w0).
          task_id u = task_id t \<longrightarrow> status u = status t"
    using assms tw by (auto simp: Task_find_def dest: distinct_ids_unique)
  from monitorLoop_status[OF l this] n l tw show ?thesis
    by (simp add: monitorTaskConditions_def)
qed

lemma monitorTaskConditions_inactive:
  assumes "distinct (map task_id (tasks w))" "t \<in> set (tasks w)" "status t \<noteq> Active"
  shows "t \<in> set (tasks (snd (monitorTaskConditions e j w)))"
    and "filter (\<lambda>q. taskId (fst q) = task_id t)
           (executionQueue (snd (monitorTaskConditions e j w)))
         = filter (\<lambda>q. taskId (fst q) = task_id t) (executionQueue w)"
proof -
  obtain now w0 where n: "new_Date w = (now, w0)" by (cases "new_Date w")
  from new_Date_effect[OF n] have tw: "tasks w0 = tasks w"
    and qw: "executionQueue w0 = executionQueue w" by simp_all
  obtain r w' where l: "monitorLoop e (Task_find (dueQuery now) w0) w0 = (r, w')"
    by (cases "monitorLoop e (Task_find (dueQuery now) w0) w0")
  have notdue: "task_id t \<notin> task_id ` set (Task_find (dueQuery now) w0)"
  proof
    assume "task_id t \<in> task_id ` set (Task_find (dueQuery now) w0)"
    then obtain d where d: "d \<in> set (tasks w)" "dueQuery now d" "task_id d = task_id t"
      using tw by (auto simp: Task_find_def)
    from distinct_ids_unique[OF assms(1) assms(2) d(1) d(3)] have "d = t" .
    with d(2) assms(3) show False by (simp add: dueQuery_def)
  qed
  from n l have res: "snd (monitorTaskConditions e j w) = w'"
    by (simp add: monitorTaskConditions_def)
  from monitorLoop_keeps_other[OF l _ notdue] assms(2) tw res
  show "t \<in> set (tasks (snd (monitorTaskConditions e j w)))" by simp
  from monitorLoop_queue_other[OF l notdue] qw res
  show "filter (\<lambda>q. taskId (fst q) = task_id t)
           (executionQueue (snd (monitorTaskConditions e j w)))
         = filter (\<lambda>q. taskId (fst q) = task_id t) (executionQueue w)" by simp
qed

section \<open>The cron scheduler\<close>

lemma scheduleTask_inactive:
  "st_status t \<noteq> Active \<Longrightarrow> scheduleTask t sw = (None, sw)"
  by (simp add: scheduleTask_def)

lemma enqueueTask_other:
  "enqueueTask ty d sw = (r, sw') \<Longrightarrow> p_taskId d \<noteq> i
     \<Longrightarrow> filter (\<lambda>p. p_taskId p = i) (queues sw' q) = filter (\<lambda>p. p_taskId p = i) (queues sw q)"
  by (auto simp: enqueueTask_def split: if_splits list.splits)

lemma scheduleTask_other:
  assumes "st_taskId t \<noteq> i"
  shows "filter (\<lambda>p. p_taskId p = i) (queues (snd (scheduleTask t sw)) q)
           = filter (\<lambda>p. p_taskId p = i) (queues sw q)"
proof (cases "st_status t = Active")
  case False
  then show ?thesis by (simp add: scheduleTask_inactive)
next
  case True
  let ?d = "\<lparr>p_taskId = st_taskId t, p_walletAddress = st_walletAddress t,
              p_userId = st_userId t, p_rules = st_rules t,
              p_metadata = st_metadata t, p_type = st_type t\<rparr>"
  obtain r sw1 where en: "enqueueTask (st_type t) ?d sw = (r, sw1)"
    by (cases "enqueueTask (st_type t) ?d sw")
  from enqueueTask_other[OF en, of i q] assms
  have "filter (\<lambda>p. p_taskId p = i) (queues sw1 q) = filter (\<lambda>p. p_taskId p = i) (queues sw q)"
    by simp
  with True en show ?thesis by (cases r) (simp_all add: scheduleTask_def)
qed

lemma scheduleAll_other:
  "i \<notin> st_taskId ` set ts
     \<Longrightarrow> filter (\<lambda>p. p_taskId p = i) (queues (scheduleAll ts sw) q)
           = filter (\<lambda>p. p_taskId p = i) (queues sw q)"
proof (induction ts arbitrary: sw)
  case Nil
  then show ?case by simp
next
  case (Cons t ts)
  then have ne: "st_taskId t \<noteq> i" "i \<notin> st_taskId ` set ts" by auto
  from Cons.IH[OF ne(2), of "snd (scheduleTask t sw)"] scheduleTask_other[OF ne(1), of sw q]
  show ?case by simp
qed

lemma scheduleTasksByType_inactive:
  assumes "distinct (map st_taskId store)" "st \<in> set store" "st_status st \<noteq> Active"
  shows "filter (\<lambda>p. p_taskId p = st_taskId st) (queues (snd (scheduleTasksByType ty store sw)) q)
           = filter (\<lambda>p. p_taskId p = st_taskId st) (queues sw q)"
proof -
  let ?sel = "filter (\<lambda>t. st_type t = ty \<and> st_status t = Active) store"
  have "st_taskId st \<notin> st_taskId ` set ?sel"
  proof
    assume "st_taskId st \<in> st_taskId ` set ?sel"
    then obtain d where d: "d \<in> set store" "st_status d = Active" "st_taskId d = st_taskId st"
      by auto
    from assms(1) have "inj_on st_taskId (set store)" by (simp add: distinct_map)
    from inj_onD[OF this d(3) d(1) assms(2)] have "d = st" .
    with d(2) assms(3) show False by simp
  qed
  from scheduleAll_other[OF this] show ?thesis by (simp add: scheduleTasksByType_def)
qed

text \<open>
  Claim C3. A task whose status is not \<open>active\<close> is never selected or enqueued by a
  poll cycle. The due-task query of \<open>monitorTaskConditions\<close> returns only tasks that are
  active and whose \<open>nextCheckAt\<close> is at most the time of the query; a task \<open>t\<close> that is
  not active is not among them, is still in the store unchanged after the cycle, and
  no job for it was added to the execution queue. In the cron scheduler,
  \<open>scheduleTask\<close> returns without enqueueing for a task \<open>st\<close> that is not active, and a
  cycle of \<open>scheduleTasksByType\<close> adds no payload for it to any queue.
\<close>

theorem C3_inactive_never_selected:
  assumes "distinct (map task_id (tasks w))"
      and "t \<in> set (tasks w)"
      and "status t \<noteq> Active"
      and "distinct (map st_taskId store)"
      and "st \<in> set store"
      and "st_status st \<noteq> Active"
  shows "(\<forall>d\<in>set (Task_find (dueQuery now) w).
            status d = Active \<and> (\<exists>n. nextCheckAt d = Some n \<and> n \<le> now)) \<and>
         t \<notin> set (Task_find (dueQuery now) w) \<and>
         t \<in> set (tasks (snd (monitorTaskConditions e j w))) \<and>
         filter (\<lambda>q. taskId (fst q) = task_id t)
             (executionQueue (snd (monitorTaskConditions e j w)))
           = filter (\<lambda>q. taskId (fst q) = task_id t) (executionQueue w) \<and>
         scheduleTask st sw = (None, sw) \<and>
         (\<forall>q. filter (\<lambda>p. p_taskId p = st_taskId st)
                 (queues (snd (scheduleTasksByType ty store sw)) q)
               = filter (\<lambda>p. p_taskId p = st_taskId st) (queues sw q))"
proof -
  have a: "\<forall>d\<in>set (Task_find (dueQuery now) w).
            status d = Active \<and> (\<exists>n. nextCheckAt d = Some n \<and> n \<le> now)"
    by (auto simp: Task_find_def dueQuery_def split: option.splits)
  with assms(3) have b: "t \<notin> set (Task_find (dueQuery now) w)" by blast
  note c = monitorTaskConditions_inactive[OF assms(1-3), of e j]
  note d = scheduleTask_inactive[OF assms(6), of sw]
  note f = scheduleTasksByType_inactive[OF assms(4-6), of ty sw]
  from a b c d f show ?thesis by blast
qed

text \<open>A poll cycle over the seeded gas task, which is due and met, and the paused price
  task; a cron cycle over an active and a paused token-purchase task.\<close>

theorem C3_inactive_never_selected_witness:
  "pausedTask \<notin> set (Task_find (dueQuery 100000) (sampleWorld [gasPriceTask, pausedTask] 100000)) \<and>
   pausedTask \<in> set (tasks (snd (monitorTaskConditions (sampleEnv 0 15000000000 0) pollJob
                                   (sampleWorld [gasPriceTask, pausedTask] 100000)))) \<and>
   filter (\<lambda>q. taskId (fst q) = ''task1'')
     (executionQueue (snd (monitorTaskConditions (sampleEnv 0 15000000000 0) pollJob
                             (sampleWorld [gasPriceTask, pausedTask] 100000)))) = [] \<and>
   scheduleTask (sampleSchedTask ''b'' Paused) emptyQueues = (None, emptyQueues) \<and>
   filter (\<lambda>p. p_taskId p = ''b'')
     (queues (snd (scheduleTasksByType ''buy_token''
                     [sampleSchedTask ''a'' Active, sampleSchedTask ''b'' Paused] emptyQueues))
        ''buy_token'') = []"
  using C3_inactive_never_selected [where w = "sampleWorld [gasPriceTask, pausedTask] 100000"
          and t = pausedTask and now = 100000 and e = "sampleEnv 0 15000000000 0"
          and j = pollJob and st = "sampleSchedTask ''b'' Paused"
          and store = "[sampleSchedTask ''a'' Active, sampleSchedTask ''b'' Paused]"
          and sw = emptyQueues and ty = "''buy_token''"]
  by (simp add: sample_defs)

section \<open>Errors, unknown condition types and the scheduling fields\<close>

lemma findById_replaceById:
  "u \<in> set ts \<Longrightarrow> task_id u = task_id t' \<Longrightarrow> findById (task_id t') (replaceById t' ts) = Some t'"
  by (induction ts) (auto simp: findById_def replaceById_def)








lemmas monitor_defs = monitorTaskConditions_def Task_find_def dueQuery_def monitorTask_def
  monitorTask_try_def monitorTask_catch_def task_save_def executionQueue_add_def
  external_write_def new_Date_def replaceById_def executionJob_def executionJobOpts_def
  findById_def Let_def










text \<open>The condition is met and nothing throws: the job is published and only
  \<open>lastCheckedAt\<close> is written; \<open>nextCheckAt\<close> keeps the value that made the task due.\<close>

lemma monitorTask_after_met:
  assumes "handleETHTransferCondition e t"
      and "monitorTask_try e t w = (None, t1, w1)"
      and "monitorTask e t w = (r, w')"
      and "t \<in> set (tasks w)"
  shows "\<exists>d. clock w \<le> d \<and>
           findById (task_id t) (tasks w') = Some (t\<lparr>lastCheckedAt := Some d\<rparr>) \<and>
           executionQueue w' = executionQueue w @ [(executionJob t, executionJobOpts)]"
proof -
  from assms(2,3) have w': "w' = w1" by (simp add: monitorTask_def)
  from monitorTask_try_met[OF assms(1,2)]
  have d: "clock w \<le> clock w1" "t1 = t\<lparr>lastCheckedAt := Some (clock w1)\<rparr>"
      "executionQueue w1 = executionQueue w @ [(executionJob t, executionJobOpts)]"
      "tasks w1 = replaceById t1 (tasks w)" by simp_all
  have "findById (task_id t1) (replaceById t1 (tasks w)) = Some t1"
    by (rule findById_replaceById[OF assms(4)]) (simp add: d(2))
  with d(2,4) w' have "findById (task_id t) (tasks w')
      = Some (t\<lparr>lastCheckedAt := Some (clock w1)\<rparr>)"
    by simp
  with d(1,3) w' show ?thesis by (intro exI[of _ "clock w1"]) simp
qed

text \<open>
  Claim C8 at a failing input. The seeded gas task is due (\<open>nextCheckAt = 60000\<close>) when
  the poll cycle runs at time 100000 and its condition is met (15 gwei against a
  threshold of 20 gwei). After the update the stored task has \<open>lastCheckedAt = 100000\<close>
  and \<open>nextCheckAt = 60000\<close>: the met branch, unlike the not-met and the error branch,
  does not write \<open>nextCheckAt\<close>, so \<open>nextCheckAt \<ge> lastCheckedAt\<close> does not hold.
\<close>

theorem C8_met_update_stale:
  "map (\<lambda>t. (lastCheckedAt t, nextCheckAt t))
     (tasks (snd (monitorTaskConditions (sampleEnv 0 15000000000 0) pollJob
                    (sampleWorld [gasPriceTask] 100000))))
     = [(Some 100000, Some 60000)]"
  by (simp add: monitor_defs sample_defs evaluator_defs truthy_def)

section \<open>The worker\<close>

lemma executeETHTransfer_direct_effect:
  "executeETHTransfer_direct e k r a w = (res, w1) \<Longrightarrow>
     tasks w1 = tasks w \<and> executionQueue w1 = executionQueue w \<and> clock w1 = clock w \<and>
     ticks w1 = ticks w \<and> faults w1 = faults w"
  by (auto simp: executeETHTransfer_direct_def Let_def split: option.splits if_splits)

lemma executeETHTransfer_effect:
  "executeETHTransfer e t u w = (res, w1) \<Longrightarrow>
     tasks w1 = tasks w \<and> executionQueue w1 = executionQueue w \<and> clock w1 = clock w \<and>
     ticks w1 = ticks w \<and> faults w1 = faults w"
  by (auto simp: executeETHTransfer_def Let_def
           split: option.splits if_splits sum.splits prod.splits
           dest!: executeETHTransfer_direct_effect)

lemma executedTask_completed:
  "executionType (configuration t) = Some ''one-time'' \<and> success res \<Longrightarrow>
     executedTask t ty res d1 d2
       = t\<lparr>executionHistory := executionHistory t @ [historyEntry d1 ty res],
           lastExecutedAt := Some d2, status := Completed\<rparr>"
  by (simp add: executedTask_def)

lemma executedTask_unchanged:
  "\<not> (executionType (configuration t) = Some ''one-time'' \<and> success res) \<Longrightarrow>
     executedTask t ty res d1 d2
       = t\<lparr>executionHistory := executionHistory t @ [historyEntry d1 ty res],
           lastExecutedAt := Some d2\<rparr>"
  by (cases t) (auto simp add: executedTask_def)

lemma executeTask_executes:
  assumes "findById (taskId j) (tasks w) = Some t"
      and "status t = Active"
      and "User_findById (userId t) (users e) = Some u"
      and "truthy (sessionKeyId t)"
      and "taskType j = ''eth-transfer''"
      and "executeETHTransfer e t u w = (res, w1)"
      and "executeTask e j w = (r, w')"
  shows "\<exists>d1 d2. clock w \<le> d1 \<and> d1 \<le> d2 \<and>
           tasks w' = (if r = None then replaceById (executedTask t (taskType j) res d1 d2) (tasks w)
                       else tasks w)"
proof -
  obtain d1 w2 where a: "new_Date w1 = (d1, w2)" by (cases "new_Date w1")
  obtain d2 w3 where b: "new_Date w2 = (d2, w3)" by (cases "new_Date w2")
  from assms a b have c: "task_save (executedTask t (taskType j) res d1 d2) w3 = (r, w')"
    by (cases "executionType (configuration t) = Some ''one-time'' \<and> success res")
       (simp_all add: executeTask_def Let_def executedTask_completed executedTask_unchanged)
  from executeETHTransfer_effect[OF assms(6)] new_Date_effect[OF a] new_Date_effect[OF b]
       task_save_effect[OF c]
  show ?thesis by (intro exI[of _ d1] exI[of _ d2]) simp
qed



lemma findById_SomeD:
  "findById i ts = Some t \<Longrightarrow> t \<in> set ts \<and> task_id t = i"
  by (auto simp: findById_def find_Some_iff)

text \<open>
  Claim C5. When \<open>executeTask\<close> processes a job for an active task with a session key,
  the execution result reports success and the save goes through, the stored task has
  one more history entry, with status \<open>success\<close>, the transaction hash of the result
  and a timestamp not before the clock at the start; \<open>lastExecutedAt\<close> is set to a
  later reading of the clock; and the status is \<open>completed\<close> when the task is one-time
  and unchanged (active) when it is not.
\<close>

theorem C5_success_recorded:
  assumes "findById (taskId j) (tasks w) = Some t"
      and "status t = Active"
      and "User_findById (userId t) (users e) = Some u"
      and "truthy (sessionKeyId t)"
      and "taskType j = ''eth-transfer''"
      and "executeETHTransfer e t u w = (res, w1)"
      and "success res"
      and "executeTask e j w = (None, w')"
  shows "\<exists>t' d1 d2.
           findById (taskId j) (tasks w') = Some t' \<and>
           executionHistory t' = executionHistory t @ [historyEntry d1 (taskType j) res] \<and>
           h_status (historyEntry d1 (taskType j) res) = ExecSuccess \<and>
           transactionHash (historyEntry d1 (taskType j) res) = r_transactionHash res \<and>
           timestamp (historyEntry d1 (taskType j) res) = d1 \<and>
           lastExecutedAt t' = Some d2 \<and> clock w \<le> d1 \<and> d1 \<le> d2 \<and>
           status t' = (if executionType (configuration t) = Some ''one-time''
                        then Completed else status t)"
proof -
  from executeTask_executes[OF assms(1-6) assms(8)]
  obtain d1 d2 where d: "clock w \<le> d1" "d1 \<le> d2"
     "tasks w' = replaceById (executedTask t (taskType j) res d1 d2) (tasks w)" by auto
  let ?t' = "executedTask t (taskType j) res d1 d2"
  from findById_SomeD[OF assms(1)] have m: "t \<in> set (tasks w)" "task_id t = taskId j" by simp_all
  have id: "task_id ?t' = task_id t" by (simp add: executedTask_def)
  from findById_replaceById[OF m(1), of ?t'] id m(2) d(3)
  have f: "findById (taskId j) (tasks w') = Some ?t'" by simp
  have props: "executionHistory ?t' = executionHistory t @ [historyEntry d1 (taskType j) res]"
    "lastExecutedAt ?t' = Some d2"
    "status ?t' = (if executionType (configuration t) = Some ''one-time''
                        then Completed else status t)"
    using assms(7) by (simp_all add: executedTask_def)
  have h: "h_status (historyEntry d1 (taskType j) res) = ExecSuccess"
    "transactionHash (historyEntry d1 (taskType j) res) = r_transactionHash res"
    "timestamp (historyEntry d1 (taskType j) res) = d1"
    using assms(7) by (simp_all add: historyEntry_def)
  from f props h d(1,2) show ?thesis
    by (intro exI[of _ ?t'] exI[of _ d1] exI[of _ d2]) simp
qed

text \<open>
  Claim C9, as amended. For a job whose task is not in the store, neither worker writes
  history or attempts a transaction: the state is left as it is. \<open>processTokenPurchaseTask\<close>
  completes, resolving with a \<open>FAILED\<close> result that carries the message
  \<open>Error processing task: Task <id> not found\<close>; \<open>executeTask\<close> does not complete: it
  rethrows the error \<open>Task <id> not found\<close>.
\<close>

theorem C9_missing_task_rejected:
  "(Task_findOne (p_taskId d) (pw_tasks pw) = None \<longrightarrow>
      processTokenPurchaseTask pe d pw =
        (Inr \<lparr>res_status = FAILED,
              res_message = ''Error processing task: Task '' @ p_taskId d @ '' not found'',
              res_details = None\<rparr>, pw)) \<and>
   (findById (taskId j) (tasks w) = None \<longrightarrow>
      executeTask e j w = (Some (Error (''Task '' @ taskId j @ '' not found'')), w))"
  by (simp add: executeTask_def processTokenPurchaseTask_def processTokenPurchaseTask_try_def
        processTokenPurchaseTask_catch_def)

lemmas executor_defs = executeTask_def executeETHTransfer_def executeETHTransfer_direct_def
  historyEntry_def failed_result_def transfer_details_def User_findById_def findById_def
  task_save_def external_write_def new_Date_def replaceById_def Let_def truthy_def

lemmas purchase_defs = processTokenPurchaseTask_def processTokenPurchaseTask_try_def
  processTokenPurchaseTask_catch_def Task_findOne_def purchase_task_save_def createActivity_def
  pw_new_Date_def pw_external_write_def toLowerCase_def truthy_def Let_def

lemmas purchase_sample_defs = samplePurchaseTask_def samplePayload_def samplePurchaseEnv_def
  samplePurchaseWorld_def

text \<open>C9 as stated fails: for a job whose task was deleted, \<open>executeTask\<close> throws.\<close>

theorem C9_counterexample:
  "fst (executeTask (sampleEnv 0 0 0) (executionJob gasPriceTask) (sampleWorld [] 100000))
     = Some (Error ''Task task2 not found'')"
  by (simp add: executor_defs sample_defs executionJob_def)

text \<open>C9 at stores that hold another task only.\<close>

theorem C9_witness:
  "processTokenPurchaseTask samplePurchaseEnv (samplePayload ''buy2'')
      (samplePurchaseWorld [samplePurchaseTask ''below once''])
     = (Inr \<lparr>res_status = FAILED,
             res_message = ''Error processing task: Task buy2 not found'',
             res_details = None\<rparr>,
        samplePurchaseWorld [samplePurchaseTask ''below once'']) \<and>
   executeTask (sampleEnv 0 0 0) (executionJob gasPriceTask) (sampleWorld [pausedTask] 100000)
     = (Some (Error ''Task task2 not found''), sampleWorld [pausedTask] 100000)"
  using C9_missing_task_rejected [of "samplePayload ''buy2''"
          "samplePurchaseWorld [samplePurchaseTask ''below once'']" samplePurchaseEnv
          "executionJob gasPriceTask" "sampleWorld [pausedTask] 100000" "sampleEnv 0 0 0"]
  by (simp add: sample_defs findById_def executionJob_def purchase_sample_defs Task_findOne_def)

text \<open>The purchase worker on a task that is in the store: the condition holds, the
  purchase is simulated and recorded, and the \<open>once\<close> condition completes the task.\<close>

lemma purchase_sample_run:
  "(case processTokenPurchaseTask samplePurchaseEnv (samplePayload ''buy1'')
           (samplePurchaseWorld [samplePurchaseTask ''below once'']) of
      (r, w) \<Rightarrow> (map_sum id res_status r, map res_message (case r of Inr x \<Rightarrow> [x] | _ \<Rightarrow> []),
                 map (\<lambda>t. (pt_status t, map er_status (pt_executionHistory t), pt_lastExecuted t))
                   (pw_tasks w),
                 map (\<lambda>a. (act_walletAddress a, act_status a)) (pw_activities w),
                 pw_purchases w))
     = (Inr SUCCESSFUL, [''Purchased 5 TKN at price $90''],
        [(Completed, [SUCCESSFUL], Some 100000)],
        [(''0xa11ce'', ''success'')],
        [(''0xA11CE'', Some ''0x70ce'')])"
  by (simp add: purchase_defs purchase_sample_defs)

text \<open>C5 at a one-time and at a recurring copy of the seeded gas task: the chain call
  succeeds with hash \<open>0xbeef\<close>.\<close>

theorem C5_witness:
  "fst (executeTask (sampleEnv 0 0 0) (executionJob oneTimeTask)
          (sampleWorld [oneTimeTask] 100000)) = None \<and>
   (\<exists>t' d1 d2.
      findById ''task2'' (tasks (snd (executeTask (sampleEnv 0 0 0) (executionJob oneTimeTask)
                                        (sampleWorld [oneTimeTask] 100000)))) = Some t' \<and>
      executionHistory t' = [historyEntry d1 ''eth-transfer'' chainResult] \<and>
      h_status (historyEntry d1 ''eth-transfer'' chainResult) = ExecSuccess \<and>
      transactionHash (historyEntry d1 ''eth-transfer'' chainResult) = Some ''0xbeef'' \<and>
      lastExecutedAt t' = Some d2 \<and> status t' = Completed) \<and>
   fst (executeTask (sampleEnv 0 0 0) (executionJob recurringTask)
          (sampleWorld [recurringTask] 100000)) = None \<and>
   (\<exists>t' d1 d2.
      findById ''task2'' (tasks (snd (executeTask (sampleEnv 0 0 0) (executionJob recurringTask)
                                        (sampleWorld [recurringTask] 100000)))) = Some t' \<and>
      executionHistory t' = [historyEntry d1 ''eth-transfer'' chainResult] \<and>
      h_status (historyEntry d1 ''eth-transfer'' chainResult) = ExecSuccess \<and>
      transactionHash (historyEntry d1 ''eth-transfer'' chainResult) = Some ''0xbeef'' \<and>
      lastExecutedAt t' = Some d2 \<and> status t' = Active)"
proof -
  let ?e = "sampleEnv 0 0 0"
  have one: "fst (executeTask ?e (executionJob t) (sampleWorld [t] 100000)) = None \<and>
      (\<exists>t' d1 d2.
      findById ''task2'' (tasks (snd (executeTask ?e (executionJob t)
                                        (sampleWorld [t] 100000)))) = Some t' \<and>
      executionHistory t' = [historyEntry d1 ''eth-transfer'' chainResult] \<and>
      h_status (historyEntry d1 ''eth-transfer'' chainResult) = ExecSuccess \<and>
      transactionHash (historyEntry d1 ''eth-transfer'' chainResult) = Some ''0xbeef'' \<and>
      lastExecutedAt t' = Some d2 \<and>
      status t' = (if executionType (configuration t) = Some ''one-time''
                        then Completed else Active))"
    if t: "t = oneTimeTask \<or> t = recurringTask" for t
  proof -
    let ?w = "sampleWorld [t] 100000"
    let ?j = "executionJob t"
    from t have f: "findById (taskId ?j) (tasks ?w) = Some t"
      by (auto simp: sample_defs findById_def executionJob_def recurringTask_def oneTimeTask_def)
    from t have a: "status t = Active" "truthy (sessionKeyId t)" "executionHistory t = []"
        "task_id t = ''task2''"
      by (auto simp: sample_defs recurringTask_def oneTimeTask_def truthy_def)
    from t have u: "User_findById (userId t) (users ?e) = Some seedUser"
      by (auto simp: sample_defs recurringTask_def oneTimeTask_def User_findById_def)
    have ty: "taskType ?j = ''eth-transfer''" by (simp add: executionJob_def)
    from t have x: "executeETHTransfer ?e t seedUser ?w
        = (chainResult, ?w\<lparr>chainCalls := [DirectTransfer ''0x5e55'' ''0xe8ec'' ''0xf39f''
                                            ''10000000000000000'']\<rparr>)"
      by (auto simp: executor_defs sample_defs recurringTask_def oneTimeTask_def chainResult_def)
    have s: "success chainResult" by (simp add: chainResult_def)
    from t have m0: "fst (executeTask ?e ?j ?w) = None"
      by (auto simp: executor_defs sample_defs executionJob_def recurringTask_def oneTimeTask_def)
    then have m: "executeTask ?e ?j ?w = (None, snd (executeTask ?e ?j ?w))"
      by (simp add: prod_eq_iff)
    have hh: "transactionHash (historyEntry d ty chainResult) = Some ''0xbeef''" for d ty
      by (simp add: historyEntry_def chainResult_def)
    from C5_success_recorded [OF f a(1) u a(2) ty x s m]
    obtain t' d1 d2 where r:
      "findById (taskId ?j) (tasks (snd (executeTask ?e ?j ?w))) = Some t'"
      "executionHistory t' = executionHistory t @ [historyEntry d1 (taskType ?j) chainResult]"
      "h_status (historyEntry d1 (taskType ?j) chainResult) = ExecSuccess"
      "lastExecutedAt t' = Some d2"
      "status t' = (if executionType (configuration t) = Some ''one-time''
                        then Completed else status t)"
      by blast
    have "findById ''task2'' (tasks (snd (executeTask ?e ?j ?w))) = Some t' \<and>
      executionHistory t' = [historyEntry d1 ''eth-transfer'' chainResult] \<and>
      h_status (historyEntry d1 ''eth-transfer'' chainResult) = ExecSuccess \<and>
      transactionHash (historyEntry d1 ''eth-transfer'' chainResult) = Some ''0xbeef'' \<and>
      lastExecutedAt t' = Some d2 \<and>
      status t' = (if executionType (configuration t) = Some ''one-time''
                        then Completed else Active)"
      using r a hh by (simp add: executionJob_def)
    then have "\<exists>t' d1 d2. findById ''task2'' (tasks (snd (executeTask ?e ?j ?w))) = Some t' \<and>
      executionHistory t' = [historyEntry d1 ''eth-transfer'' chainResult] \<and>
      h_status (historyEntry d1 ''eth-transfer'' chainResult) = ExecSuccess \<and>
      transactionHash (historyEntry d1 ''eth-transfer'' chainResult) = Some ''0xbeef'' \<and>
      lastExecutedAt t' = Some d2 \<and>
      status t' = (if executionType (configuration t) = Some ''one-time''
                        then Completed else Active)"
      by blast
    with m0 show ?thesis by (rule conjI)
  qed
  have ot: "executionType (configuration oneTimeTask) = Some ''one-time''"
    "executionType (configuration recurringTask) \<noteq> Some ''one-time''"
    by (simp_all add: sample_defs recurringTask_def oneTimeTask_def)
  from one[of oneTimeTask] have g: "fst (executeTask ?e (executionJob oneTimeTask)
          (sampleWorld [oneTimeTask] 100000)) = None"
   "\<exists>t' d1 d2.
      findById ''task2'' (tasks (snd (executeTask ?e (executionJob oneTimeTask)
                                        (sampleWorld [oneTimeTask] 100000)))) = Some t' \<and>
      executionHistory t' = [historyEntry d1 ''eth-transfer'' chainResult] \<and>
      h_status (historyEntry d1 ''eth-transfer'' chainResult) = ExecSuccess \<and>
      transactionHash (historyEntry d1 ''eth-transfer'' chainResult) = Some ''0xbeef'' \<and>
      lastExecutedAt t' = Some d2 \<and> status t' = Completed"
    by (simp_all only: ot if_True simp_thms)
  from one[of recurringTask] have r: "fst (executeTask ?e (executionJob recurringTask)
          (sampleWorld [recurringTask] 100000)) = None"
   "\<exists>t' d1 d2.
      findById ''task2'' (tasks (snd (executeTask ?e (executionJob recurringTask)
                                        (sampleWorld [recurringTask] 100000)))) = Some t' \<and>
      executionHistory t' = [historyEntry d1 ''eth-transfer'' chainResult] \<and>
      h_status (historyEntry d1 ''eth-transfer'' chainResult) = ExecSuccess \<and>
      transactionHash (historyEntry d1 ''eth-transfer'' chainResult) = Some ''0xbeef'' \<and>
      lastExecutedAt t' = Some d2 \<and> status t' = Active"
    by (simp_all only: ot if_False simp_thms)
  from g r show ?thesis by (intro conjI)
qed

section \<open>One-time tasks\<close>






















text \<open>A run without status requests: the task is polled and executed once; the two later
  jobs for it are skipped.\<close>

lemma sample_run:
  "map (\<lambda>t. (status t, successes t, one_time t))
     (tasks (run sampleEvents (sampleWorld [oneTimeTask] 100000)))
     = [(Completed, 1, True)] \<and>
   map (taskId \<circ> fst) (executionQueue (run sampleEvents (sampleWorld [oneTimeTask] 100000)))
     = [''task2'']"
  by (simp add: sampleEvents_def executor_defs monitor_defs sample_defs evaluator_defs
        successes_def one_time_def oneTimeTask_def)



end
